theory Spec2Isabelle
  imports Complex_Main
begin

section \<open>Dendritic Gated Network (dendritic\_gated\_network.ipynb)\<close>

text \<open>
  The notebook computes with numpy arrays of floats. Arrays are modelled as nested lists of
  reals: a one-dimensional array is a list, a three-dimensional array of shape
  (neurons, branches, inputs) is a list of neurons, each a list of branch vectors. Arithmetic
  is the arithmetic of the real numbers, so rounding, overflow, infinities and NaN are outside
  the model. A nested list stands for an array all of whose axes have positive length.

  The step functions mutate the weight arrays in place. The model passes the network state
  explicitly and returns the new state together with the outcome of the call, so that a call
  that raises in a later layer still shows the layers it had already updated. Every layer
  owns its own weight array and its own hyperplane array, as the notebook's initialisation
  builds them: no array is shared between two layers or between weights and hyperplanes.
\<close>

type_synonym vec = "real list"
type_synonym mat = "real list list"
type_synonym tensor3 = "real list list list"

datatype error = ValueError | TypeError | UnboundLocalError

record dgn =
  weights :: "tensor3 list"
  hyperplanes :: "tensor3 list"

subsection \<open>numpy primitives\<close>

definition heaviside :: "real \<Rightarrow> real \<Rightarrow> real" where
  \<comment> \<open>np.heaviside(x1, x2): 0 below zero, x2 at zero, 1 above zero\<close>
  "heaviside x1 x2 = (if x1 < 0 then 0 else if x1 = 0 then x2 else 1)"

definition astype_bool :: "real \<Rightarrow> bool" where
  \<comment> \<open>.astype(bool): every non-zero number is True\<close>
  "astype_bool x = (x \<noteq> 0)"

definition dot :: "vec \<Rightarrow> vec \<Rightarrow> real" where
  "dot xs ys = sum_list (map2 (*) xs ys)"

definition last_axis_is :: "nat \<Rightarrow> tensor3 \<Rightarrow> bool" where
  \<comment> \<open>the last axis of the array has length n\<close>
  "last_axis_is n t = list_all (list_all (\<lambda>v. length v = n)) t"

definition last_dim :: "tensor3 \<Rightarrow> nat" where
  \<comment> \<open>t.shape[-1]\<close>
  "last_dim t = (case t of [] \<Rightarrow> 0 | r # _ \<Rightarrow> (case r of [] \<Rightarrow> 0 | v # _ \<Rightarrow> length v))"

definition branches_match :: "bool list list \<Rightarrow> tensor3 \<Rightarrow> bool" where
  \<comment> \<open>the last axis of the gates and the second-to-last axis of w have the same length\<close>
  "branches_match g w = list_all (\<lambda>gi. list_all (\<lambda>wk. length wk = length gi) w) g"

definition gate_dot :: "bool list list \<Rightarrow> tensor3 \<Rightarrow> tensor3" where
  \<comment> \<open>gate\_values.dot(w) for a 2-D and a 3-D array: the sum product over the last axis of
      the gates and the second-to-last axis of w,
      result[i][k][m] = sum over j of gate[i][j] * w[k][j][m]\<close>
  "gate_dot g w =
     map (\<lambda>gi. map (\<lambda>wk. map (\<lambda>m. sum_list (map2 (\<lambda>gv wv. of_bool gv * wv ! m) gi wk))
                              [0..<last_dim w]) w) g"

definition sum_axis1 :: "nat \<Rightarrow> tensor3 \<Rightarrow> mat" where
  \<comment> \<open>t.sum(axis=1) for an array whose last axis has length n\<close>
  "sum_axis1 n t = map (\<lambda>plane. map (\<lambda>m. sum_list (map (\<lambda>v. v ! m) plane)) [0..<n]) t"

definition mat_dot :: "mat \<Rightarrow> vec \<Rightarrow> vec" where
  \<comment> \<open>a.dot(v) for a 2-D array a and a 1-D array v\<close>
  "mat_dot a v = map (\<lambda>row. dot row v) a"

definition broadcast0 :: "nat \<Rightarrow> 'a list \<Rightarrow> 'a list" where
  \<comment> \<open>broadcasting along the first axis: an axis of length 1 is repeated n times\<close>
  "broadcast0 n xs = (case xs of [x] \<Rightarrow> replicate n x | _ \<Rightarrow> xs)"

definition clip :: "real \<Rightarrow> real \<Rightarrow> real \<Rightarrow> real" where
  \<comment> \<open>np.clip(x, a\_min, a\_max) = minimum(a\_max, maximum(x, a\_min))\<close>
  "clip x a_min a_max = min a_max (max x a_min)"

definition logaddexp :: "real \<Rightarrow> real \<Rightarrow> real" where
  "logaddexp a b = ln (exp a + exp b)"

subsection \<open>Gating, effective weights and the weight update\<close>

definition gate_values :: "tensor3 \<Rightarrow> vec \<Rightarrow> bool list list" where
  \<comment> \<open>np.heaviside(h.dot(side\_info), 0).astype(bool)\<close>
  "gate_values h side_info =
     map (map (\<lambda>hp. astype_bool (heaviside (dot hp side_info) 0))) h"

definition effective_weights :: "bool list list \<Rightarrow> tensor3 \<Rightarrow> mat" where
  \<comment> \<open>gate\_values.dot(w).sum(axis=1)\<close>
  "effective_weights g w = sum_axis1 (last_dim w) (gate_dot g w)"

definition weight_update :: "real \<Rightarrow> bool list list \<Rightarrow> mat \<Rightarrow> tensor3 \<Rightarrow> tensor3" where
  \<comment> \<open>w -= learning\_rate * gate\_values[:, :, None] * grad[:, None]\<close>
  "weight_update learning_rate g grad w =
     map2 (\<lambda>wk (gk, dk). map2 (\<lambda>wv gv. map2 (\<lambda>x d. x - learning_rate * of_bool gv * d) wv dk) wk gk)
       w (zip (broadcast0 (length w) g) (broadcast0 (length w) grad))"

subsection \<open>step\_square\_loss\<close>

definition square_grad :: "vec \<Rightarrow> real \<Rightarrow> vec \<Rightarrow> mat" where
  \<comment> \<open>(r\_out[:, None] - target) * r\_in[None]\<close>
  "square_grad r_out target r_in = map (\<lambda>ro. map (\<lambda>x. (ro - target) * x) r_in) r_out"

definition square_r_out :: "vec \<Rightarrow> tensor3 \<Rightarrow> tensor3 \<Rightarrow> vec \<Rightarrow> vec" where
  \<comment> \<open>the layer's output, r\_in being the activation with the bias unit already added\<close>
  "square_r_out side_info w h r_in =
     mat_dot (effective_weights (gate_values h side_info) w) r_in"

definition layer_square_loss ::
  "vec \<Rightarrow> real \<Rightarrow> real option \<Rightarrow> bool \<Rightarrow> tensor3 \<Rightarrow> tensor3 \<Rightarrow> vec \<Rightarrow> error + tensor3 \<times> vec" where
  \<comment> \<open>the body of the loop over layers: returns the layer's weights after the pass and r\_out\<close>
  "layer_square_loss side_info learning_rate target update w h r_in0 =
     (let r_in = 1 # r_in0 in
      if \<not> last_axis_is (length side_info) h then Inl ValueError
      else if \<not> branches_match (gate_values h side_info) w then Inl ValueError
      else if \<not> last_axis_is (length r_in) w then Inl ValueError
      else
        let r_out = square_r_out side_info w h r_in in
        if update then
          (case target of
             None \<Rightarrow> Inl TypeError
           | Some t \<Rightarrow>
               if length h = length w \<or> length h = 1
               then Inr (weight_update learning_rate (gate_values h side_info)
                           (square_grad r_out t r_in) w, r_out)
               else Inl ValueError)
        else Inr (w, r_out))"

fun loop_layers ::
  "(tensor3 \<Rightarrow> tensor3 \<Rightarrow> vec \<Rightarrow> error + tensor3 \<times> vec) \<Rightarrow> (tensor3 \<times> tensor3) list \<Rightarrow>
   vec \<Rightarrow> vec option \<Rightarrow> tensor3 list \<times> (error + vec option)" where
  \<comment> \<open>for w, h in zip(weights, hyperplanes): the weights of the layers after the loop, and
      r\_out if the loop has bound it; a layer that raises leaves the later layers untouched\<close>
  "loop_layers body [] r_in r_out = ([], Inr r_out)"
| "loop_layers body ((w, h) # rest) r_in r_out =
     (case body w h r_in of
        Inl e \<Rightarrow> (w # map fst rest, Inl e)
      | Inr (w', out) \<Rightarrow>
          (case loop_layers body rest out (Some out) of (ws, res) \<Rightarrow> (w' # ws, res)))"

definition store_weights :: "dgn \<Rightarrow> tensor3 list \<Rightarrow> dgn" where
  \<comment> \<open>zip stops at the shorter list: weight arrays beyond it are never visited\<close>
  "store_weights net ws = net\<lparr>weights := ws @ drop (length ws) (weights net)\<rparr>"

definition square_loss :: "real \<Rightarrow> vec \<Rightarrow> vec" where
  "square_loss target r_out = map (\<lambda>r. (target - r)\<^sup>2 / 2) r_out"

definition step_square_loss ::
  "vec \<Rightarrow> dgn \<Rightarrow> real \<Rightarrow> real \<Rightarrow> real option \<Rightarrow> bool \<Rightarrow> dgn \<times> (error + vec \<times> vec)" where
  "step_square_loss inputs net hyperplane_bias_magnitude learning_rate target update =
     (let r_in = inputs;
          side_info = hyperplane_bias_magnitude # inputs
      in case loop_layers (layer_square_loss side_info learning_rate target update)
                (zip (weights net) (hyperplanes net)) r_in None of
           (ws, res) \<Rightarrow>
             (store_weights net ws,
              case res of
                Inl e \<Rightarrow> Inl e
              | Inr None \<Rightarrow> Inl UnboundLocalError
              | Inr (Some r_out) \<Rightarrow>
                  (case target of
                     None \<Rightarrow> Inl TypeError
                   | Some t \<Rightarrow> Inr (r_out, square_loss t r_out))))"

subsection \<open>step\_bernoulli\<close>

definition sigmoid :: "real \<Rightarrow> real" where
  "sigmoid x = exp (- logaddexp 0 (- x))"

definition inverse_sigmoid :: "real \<Rightarrow> real" where
  "inverse_sigmoid x = ln (x / (1 - x))"

definition bernoulli_h_in :: "vec \<Rightarrow> vec" where
  \<comment> \<open>inverse\_sigmoid(r\_in), r\_in being the activation with the bias unit already added\<close>
  "bernoulli_h_in r_in = map inverse_sigmoid r_in"

definition bernoulli_r_out_unclipped :: "vec \<Rightarrow> tensor3 \<Rightarrow> tensor3 \<Rightarrow> vec \<Rightarrow> vec" where
  "bernoulli_r_out_unclipped side_info w h r_in =
     map sigmoid (mat_dot (effective_weights (gate_values h side_info) w) (bernoulli_h_in r_in))"

definition bernoulli_grad :: "real \<Rightarrow> vec \<Rightarrow> vec \<Rightarrow> real \<Rightarrow> vec \<Rightarrow> mat" where
  \<comment> \<open>update\_indicator = np.abs(target - r\_out\_unclipped) > epsilon;
      grad = (r\_out[:, None] - target) * h\_in[None] * update\_indicator[:, None]\<close>
  "bernoulli_grad epsilon r_out_unclipped r_out target h_in =
     map2 (\<lambda>ro update_indicator. map (\<lambda>x. (ro - target) * x * of_bool update_indicator) h_in)
       r_out (map (\<lambda>ru. \<bar>target - ru\<bar> > epsilon) r_out_unclipped)"

definition layer_bernoulli ::
  "vec \<Rightarrow> real \<Rightarrow> real \<Rightarrow> real option \<Rightarrow> bool \<Rightarrow> tensor3 \<Rightarrow> tensor3 \<Rightarrow> vec \<Rightarrow> error + tensor3 \<times> vec" where
  "layer_bernoulli side_info learning_rate epsilon target update w h r_in0 =
     (let r_in = sigmoid 1 # r_in0;
          h_in = bernoulli_h_in r_in in
      if \<not> last_axis_is (length side_info) h then Inl ValueError
      else if \<not> branches_match (gate_values h side_info) w then Inl ValueError
      else if \<not> last_axis_is (length h_in) w then Inl ValueError
      else
        let r_out_unclipped = bernoulli_r_out_unclipped side_info w h r_in;
            r_out = map (\<lambda>x. clip x epsilon (1 - epsilon)) r_out_unclipped in
        if update then
          (case target of
             None \<Rightarrow> Inl TypeError
           | Some t \<Rightarrow>
               if length h = length w \<or> length h = 1
               then Inr (weight_update learning_rate (gate_values h side_info)
                           (bernoulli_grad epsilon r_out_unclipped r_out t h_in) w, r_out)
               else Inl ValueError)
        else Inr (w, r_out))"

definition bernoulli_loss :: "real \<Rightarrow> vec \<Rightarrow> vec" where
  "bernoulli_loss target r_out = map (\<lambda>r. - (target * ln r + (1 - target) * ln (1 - r))) r_out"

definition step_bernoulli ::
  "vec \<Rightarrow> dgn \<Rightarrow> real \<Rightarrow> real \<Rightarrow> real \<Rightarrow> real option \<Rightarrow> bool \<Rightarrow> dgn \<times> (error + vec \<times> vec)" where
  "step_bernoulli inputs net hyperplane_bias_magnitude learning_rate epsilon target update =
     (let r_in = map (\<lambda>x. clip (sigmoid x) epsilon (1 - epsilon)) inputs;
          side_info = hyperplane_bias_magnitude # inputs
      in case loop_layers (layer_bernoulli side_info learning_rate epsilon target update)
                (zip (weights net) (hyperplanes net)) r_in None of
           (ws, res) \<Rightarrow>
             (store_weights net ws,
              case res of
                Inl e \<Rightarrow> Inl e
              | Inr None \<Rightarrow> Inl UnboundLocalError
              | Inr (Some r_out) \<Rightarrow>
                  (case target of
                     None \<Rightarrow> Inl TypeError
                   | Some t \<Rightarrow> Inr (r_out, bernoulli_loss t r_out))))"

subsection \<open>Initialisation\<close>

definition n_inputs :: "nat \<Rightarrow> nat list \<Rightarrow> nat list" where
  \<comment> \<open>np.hstack([n\_features + 1, n\_neurons[:-1] + 1])\<close>
  "n_inputs n_features n_neurons = (n_features + 1) # map (\<lambda>n. n + 1) (butlast n_neurons)"

definition dgn_weights :: "nat list \<Rightarrow> nat \<Rightarrow> nat \<Rightarrow> tensor3 list" where
  "dgn_weights n_neurons n_branches n_features =
     map2 (\<lambda>n_neuron n_input. replicate n_neuron (replicate n_branches (replicate n_input 0)))
       n_neurons (n_inputs n_features n_neurons)"

definition frobenius_norm :: "mat \<Rightarrow> real" where
  \<comment> \<open>np.linalg.norm over both axes of a 2-D block\<close>
  "frobenius_norm m = sqrt (sum_list (map (\<lambda>row. sum_list (map (\<lambda>x. x\<^sup>2) row)) m))"

definition normalise_layer :: "tensor3 \<Rightarrow> tensor3" where
  \<comment> \<open>h\_ / np.linalg.norm(h\_[:, :, :-1], axis=(1, 2))[:, None, None]\<close>
  "normalise_layer h0 =
     map (\<lambda>neuron. map (map (\<lambda>x. x / frobenius_norm (map butlast neuron))) neuron) h0"

definition dgn_hyperplanes :: "tensor3 list \<Rightarrow> tensor3 list" where
  \<comment> \<open>the argument is the list of arrays drawn by np.random.normal, one per layer\<close>
  "dgn_hyperplanes drawn = map normalise_layer drawn"

definition l2_norm :: "vec \<Rightarrow> real" where
  "l2_norm v = sqrt (sum_list (map (\<lambda>x. x\<^sup>2) v))"

subsection \<open>Auxiliary notions used in the statements\<close>

definition layer_out :: "error + tensor3 \<times> vec \<Rightarrow> error + vec" where
  \<comment> \<open>what a pass over one layer hands to the rest of the loop: r\_out, or the exception\<close>
  "layer_out res = (case res of Inl e \<Rightarrow> Inl e | Inr (w', out) \<Rightarrow> Inr out)"

definition masked_effective_weights :: "bool list list \<Rightarrow> tensor3 \<Rightarrow> mat" where
  \<comment> \<open>the rule as the specification words it, for comparison with \<open>effective_weights\<close>:
      neuron i sums its own branch vectors w[i][j] over its own active gates\<close>
  "masked_effective_weights g w =
     map2 (\<lambda>gi wi. map (\<lambda>m. sum_list (map2 (\<lambda>gv wv. of_bool gv * wv ! m) gi wi))
                       [0..<last_dim w]) g w"

section \<open>Properties of the primitives and of the loop\<close>

lemma astype_bool_heaviside: "astype_bool (heaviside x 0) \<longleftrightarrow> 0 < x"
  by (simp add: astype_bool_def heaviside_def)

lemma gate_values_nth:
  "n < length h \<Longrightarrow> b < length (h ! n) \<Longrightarrow> gate_values h s ! n ! b = (0 < dot (h ! n ! b) s)"
  by (simp add: gate_values_def astype_bool_heaviside)

lemma gate_values_length [simp]: "length (gate_values h s) = length h"
  by (simp add: gate_values_def)

lemma gate_values_row_length [simp]: "n < length h \<Longrightarrow> length (gate_values h s ! n) = length (h ! n)"
  by (simp add: gate_values_def)

lemma broadcast0_same: "length xs = n \<Longrightarrow> broadcast0 n xs = xs"
  by (auto simp: broadcast0_def split: list.splits)

lemma broadcast0_length: "length xs = n \<or> length xs = 1 \<Longrightarrow> length (broadcast0 n xs) = n"
  by (auto simp: broadcast0_def split: list.splits)

lemma broadcast0_nth:
  "length xs = n \<or> length xs = 1 \<Longrightarrow> i < n \<Longrightarrow>
   broadcast0 n xs ! i = xs ! (if length xs = 1 then 0 else i)"
  by (auto simp: broadcast0_def split: list.splits)

lemma weight_update_length:
  "length g = length w \<or> length g = 1 \<Longrightarrow> length grad = length g \<Longrightarrow>
   length (weight_update lr g grad w) = length w"
  by (auto simp: weight_update_def broadcast0_length)

lemma weight_update_nth:
  assumes "length g = length w \<or> length g = 1" and "length grad = length g" and "i < length w"
  shows "weight_update lr g grad w ! i =
     map2 (\<lambda>wv gv. map2 (\<lambda>x d. x - lr * of_bool gv * d) wv (grad ! (if length g = 1 then 0 else i)))
       (w ! i) (g ! (if length g = 1 then 0 else i))"
  using assms by (auto simp: weight_update_def broadcast0_length broadcast0_nth)

lemma clip_range: "a \<le> b \<Longrightarrow> a \<le> clip x a b \<and> clip x a b \<le> b"
  by (auto simp: clip_def)

subsection \<open>The loop over layers\<close>

lemma loop_layers_length: "length (fst (loop_layers body ls r ro)) = length ls"
  by (induction ls arbitrary: r ro) (auto simp: case_prod_beta split: sum.splits)

lemma loop_layers_nth:
  "l < length ls \<Longrightarrow>
   fst (loop_layers body ls r ro) ! l = fst (ls ! l) \<or>
   (\<exists>r' out. body (fst (ls ! l)) (snd (ls ! l)) r' = Inr (fst (loop_layers body ls r ro) ! l, out))"
proof (induction ls arbitrary: r ro l)
  case Nil
  then show ?case by simp
next
  case (Cons a ls)
  obtain w h where a: "a = (w, h)" by (cases a)
  show ?case
  proof (cases "body w h r")
    case (Inl e)
    with a Cons.prems show ?thesis by (cases l) auto
  next
    case (Inr p)
    obtain w' out where p: "p = (w', out)" by (cases p)
    show ?thesis
    proof (cases l)
      case 0
      with a Inr p show ?thesis by (auto split: prod.splits)
    next
      case (Suc k)
      with Cons.prems have "k < length ls" by simp
      from Cons.IH[OF this, of out "Some out"] a Inr p Suc show ?thesis
        by (auto split: prod.splits)
    qed
  qed
qed

lemma loop_layers_out:
  assumes "\<And>w h r w' out. body w h r = Inr (w', out) \<Longrightarrow> P out"
    and "snd (loop_layers body ls r ro) = Inr (Some out)"
    and "\<And>x. ro = Some x \<Longrightarrow> P x"
  shows "P out"
  using assms(2,3)
proof (induction ls arbitrary: r ro)
  case Nil
  then show ?case by simp
next
  case (Cons a ls)
  obtain w h where a: "a = (w, h)" by (cases a)
  show ?case
  proof (cases "body w h r")
    case (Inl e)
    with a Cons.prems show ?thesis by simp
  next
    case (Inr p)
    obtain w' o' where p: "p = (w', o')" by (cases p)
    have "P o'" using assms(1) Inr p by blast
    moreover have "snd (loop_layers body ls o' (Some o')) = Inr (Some out)"
      using Cons.prems(1) a Inr p by (simp split: prod.splits)
    ultimately show ?thesis using Cons.IH[of o' "Some o'"] by simp
  qed
qed

text \<open>If the loop ends without an exception, every layer was passed by the body.\<close>

lemma loop_layers_success:
  assumes "snd (loop_layers body ls r ro) = Inr x" and "l < length ls"
  shows "\<exists>r' out. body (fst (ls ! l)) (snd (ls ! l)) r'
           = Inr (fst (loop_layers body ls r ro) ! l, out)"
  using assms
proof (induction ls arbitrary: r ro l)
  case Nil
  then show ?case by simp
next
  case (Cons a ls)
  obtain w h where a: "a = (w, h)" by (cases a)
  show ?case
  proof (cases "body w h r")
    case (Inl e)
    with a Cons.prems show ?thesis by simp
  next
    case (Inr p)
    obtain w' out where p: "p = (w', out)" by (cases p)
    have rest: "snd (loop_layers body ls out (Some out)) = Inr x"
      using Cons.prems(1) a Inr p by (simp add: case_prod_beta)
    show ?thesis
    proof (cases l)
      case 0
      with a Inr p show ?thesis by (auto simp: case_prod_beta)
    next
      case (Suc k)
      with Cons.prems have "k < length ls" by simp
      from Cons.IH[OF rest this] a Inr p Suc show ?thesis
        by (auto simp: case_prod_beta)
    qed
  qed
qed

section \<open>One layer\<close>

lemma mat_dot_length [simp]: "length (mat_dot a v) = length a"
  by (simp add: mat_dot_def)

lemma effective_weights_length [simp]: "length (effective_weights g w) = length g"
  by (simp add: effective_weights_def sum_axis1_def gate_dot_def)

lemma square_r_out_length [simp]: "length (square_r_out s w h r) = length h"
  by (simp add: square_r_out_def)

lemma bernoulli_r_out_unclipped_length [simp]: "length (bernoulli_r_out_unclipped s w h r) = length h"
  by (simp add: bernoulli_r_out_unclipped_def)

lemma square_grad_length [simp]: "length (square_grad out t r) = length out"
  by (simp add: square_grad_def)

lemma square_grad_nth:
  "i < length out \<Longrightarrow> square_grad out t r ! i = map (\<lambda>x. (out ! i - t) * x) r"
  by (simp add: square_grad_def)

lemma bernoulli_grad_length [simp]:
  "length ru = length out \<Longrightarrow> length (bernoulli_grad e ru out t hin) = length out"
  by (simp add: bernoulli_grad_def)

lemma bernoulli_grad_nth:
  "length ru = length out \<Longrightarrow> i < length out \<Longrightarrow>
   bernoulli_grad e ru out t hin ! i = map (\<lambda>x. (out ! i - t) * x * of_bool (\<bar>t - ru ! i\<bar> > e)) hin"
  by (simp add: bernoulli_grad_def)

lemma last_axis_isD:
  "last_axis_is n t \<Longrightarrow> i < length t \<Longrightarrow> j < length (t ! i) \<Longrightarrow> length (t ! i ! j) = n"
  by (simp add: last_axis_is_def list_all_length)

lemma branches_matchD:
  "branches_match g w \<Longrightarrow> i < length g \<Longrightarrow> k < length w \<Longrightarrow> length (w ! k) = length (g ! i)"
  by (simp add: branches_match_def list_all_length)

text \<open>What a successful layer pass says about its arguments and results.\<close>

lemma layer_square_loss_Inr:
  assumes "layer_square_loss s lr tgt upd w h r0 = Inr (w', out)"
  shows "last_axis_is (length s) h" and "branches_match (gate_values h s) w"
    and "last_axis_is (Suc (length r0)) w" and "out = square_r_out s w h (1 # r0)"
    and "\<not> upd \<Longrightarrow> w' = w"
    and "upd \<Longrightarrow> \<exists>t. tgt = Some t \<and> (length h = length w \<or> length h = 1) \<and>
           w' = weight_update lr (gate_values h s) (square_grad out t (1 # r0)) w"
  using assms
  by (auto simp: layer_square_loss_def Let_def split: if_splits option.splits)

lemma layer_bernoulli_Inr:
  assumes "layer_bernoulli s lr e tgt upd w h r0 = Inr (w', out)"
  shows "last_axis_is (length s) h" and "branches_match (gate_values h s) w"
    and "last_axis_is (Suc (length r0)) w"
    and "out = map (\<lambda>x. clip x e (1 - e)) (bernoulli_r_out_unclipped s w h (sigmoid 1 # r0))"
    and "\<not> upd \<Longrightarrow> w' = w"
    and "upd \<Longrightarrow> \<exists>t. tgt = Some t \<and> (length h = length w \<or> length h = 1) \<and>
           w' = weight_update lr (gate_values h s)
                  (bernoulli_grad e (bernoulli_r_out_unclipped s w h (sigmoid 1 # r0)) out t
                     (bernoulli_h_in (sigmoid 1 # r0))) w"
  using assms
  by (auto simp: layer_bernoulli_def bernoulli_h_in_def Let_def split: if_splits option.splits)

text \<open>The in-place update, entry by entry.\<close>

lemma weight_update_entry:
  assumes bc: "length g = length w \<or> length g = 1" and lg: "length grad = length g"
    and bm: "branches_match g w" and la: "last_axis_is n w"
    and gr: "\<And>k. k < length grad \<Longrightarrow> length (grad ! k) = n"
    and i: "i < length w" "i < length g" and j: "j < length (w ! i)" and m: "m < n"
  shows "weight_update lr g grad w ! i ! j ! m = w ! i ! j ! m - lr * of_bool (g ! i ! j) * grad ! i ! m"
proof -
  have bi: "(if length g = 1 then 0 else i) = i" using i by auto
  have row: "weight_update lr g grad w ! i =
      map2 (\<lambda>wv gv. map2 (\<lambda>x d. x - lr * of_bool gv * d) wv (grad ! i)) (w ! i) (g ! i)"
    using weight_update_nth[OF bc lg i(1), of lr] bi by simp
  have lj: "length (g ! i) = length (w ! i)"
    by (simp add: branches_matchD[OF bm i(2) i(1)])
  have lw: "length (w ! i ! j) = n" using last_axis_isD[OF la i(1) j] .
  have lgr: "length (grad ! i) = n" using gr i lg by simp
  show ?thesis using row lj lw lgr j m by simp
qed

lemma weight_update_inactive:
  assumes bc: "length g = length w \<or> length g = 1" and lg: "length grad = length g"
    and bm: "branches_match g w" and la: "last_axis_is n w"
    and gr: "\<And>k. k < length grad \<Longrightarrow> length (grad ! k) = n"
    and i: "i < length w" "i < length g" and j: "j < length (w ! i)" and off: "\<not> g ! i ! j"
  shows "weight_update lr g grad w ! i ! j = w ! i ! j"
proof (rule nth_equalityI)
  have bi: "(if length g = 1 then 0 else i) = i" using i by auto
  have row: "weight_update lr g grad w ! i =
      map2 (\<lambda>wv gv. map2 (\<lambda>x d. x - lr * of_bool gv * d) wv (grad ! i)) (w ! i) (g ! i)"
    using weight_update_nth[OF bc lg i(1), of lr] bi by simp
  have lj: "length (g ! i) = length (w ! i)"
    by (simp add: branches_matchD[OF bm i(2) i(1)])
  have lw: "length (w ! i ! j) = n" using last_axis_isD[OF la i(1) j] .
  have lgr: "length (grad ! i) = n" using gr i lg by simp
  show len: "length (weight_update lr g grad w ! i ! j) = length (w ! i ! j)"
    using row lj lw lgr j by simp
  fix m assume "m < length (weight_update lr g grad w ! i ! j)"
  with len lw have "m < n" by simp
  from weight_update_entry[OF bc lg bm la gr i j this, of lr] off
  show "weight_update lr g grad w ! i ! j ! m = w ! i ! j ! m" by simp
qed

lemma weight_update_shape:
  assumes bc: "length g = length w \<or> length g = 1" and lg: "length grad = length g"
    and bm: "branches_match g w" and la: "last_axis_is n w"
    and gr: "\<And>k. k < length grad \<Longrightarrow> length (grad ! k) = n"
  shows "map (map length) (weight_update lr g grad w) = map (map length) w"
proof (rule nth_equalityI)
  show "length (map (map length) (weight_update lr g grad w)) = length (map (map length) w)"
    by (simp add: weight_update_length[OF bc lg])
  fix i assume "i < length (map (map length) (weight_update lr g grad w))"
  then have i: "i < length w" by (simp add: weight_update_length[OF bc lg])
  define bi where "bi = (if length g = 1 then 0 else i)"
  have big: "bi < length g" using bc i by (auto simp: bi_def)
  have row: "weight_update lr g grad w ! i =
      map2 (\<lambda>wv gv. map2 (\<lambda>x d. x - lr * of_bool gv * d) wv (grad ! bi)) (w ! i) (g ! bi)"
    using weight_update_nth[OF bc lg i, of lr] by (simp add: bi_def)
  have lj: "length (g ! bi) = length (w ! i)"
    by (simp add: branches_matchD[OF bm big i])
  have lgr: "length (grad ! bi) = n" using gr big lg by simp
  have "map length (weight_update lr g grad w ! i) = map length (w ! i)"
  proof (rule nth_equalityI)
    show "length (map length (weight_update lr g grad w ! i)) = length (map length (w ! i))"
      using row lj by simp
    fix j assume "j < length (map length (weight_update lr g grad w ! i))"
    then have j: "j < length (w ! i)" using row lj by simp
    have "length (w ! i ! j) = n" using last_axis_isD[OF la i j] .
    then show "map length (weight_update lr g grad w ! i) ! j = map length (w ! i) ! j"
      using row lj lgr j by simp
  qed
  then show "map (map length) (weight_update lr g grad w) ! i = map (map length) w ! i"
    using i by (simp add: weight_update_length[OF bc lg])
qed

section \<open>The whole step\<close>

lemma fst_step_square_loss:
  "fst (step_square_loss inputs net b lr tgt upd) =
   store_weights net (fst (loop_layers (layer_square_loss (b # inputs) lr tgt upd)
      (zip (weights net) (hyperplanes net)) inputs None))"
  by (simp add: step_square_loss_def Let_def split: prod.splits)

lemma snd_step_square_loss:
  "snd (step_square_loss inputs net b lr tgt upd) =
   (case snd (loop_layers (layer_square_loss (b # inputs) lr tgt upd)
      (zip (weights net) (hyperplanes net)) inputs None) of
      Inl e \<Rightarrow> Inl e
    | Inr None \<Rightarrow> Inl UnboundLocalError
    | Inr (Some r_out) \<Rightarrow>
        (case tgt of None \<Rightarrow> Inl TypeError | Some t \<Rightarrow> Inr (r_out, square_loss t r_out)))"
  by (simp add: step_square_loss_def Let_def split: prod.splits)

lemma fst_step_bernoulli:
  "fst (step_bernoulli inputs net b lr e tgt upd) =
   store_weights net (fst (loop_layers (layer_bernoulli (b # inputs) lr e tgt upd)
      (zip (weights net) (hyperplanes net)) (map (\<lambda>x. clip (sigmoid x) e (1 - e)) inputs) None))"
  by (simp add: step_bernoulli_def Let_def split: prod.splits)

lemma snd_step_bernoulli:
  "snd (step_bernoulli inputs net b lr e tgt upd) =
   (case snd (loop_layers (layer_bernoulli (b # inputs) lr e tgt upd)
      (zip (weights net) (hyperplanes net)) (map (\<lambda>x. clip (sigmoid x) e (1 - e)) inputs) None) of
      Inl e \<Rightarrow> Inl e
    | Inr None \<Rightarrow> Inl UnboundLocalError
    | Inr (Some r_out) \<Rightarrow>
        (case tgt of None \<Rightarrow> Inl TypeError | Some t \<Rightarrow> Inr (r_out, bernoulli_loss t r_out)))"
  by (simp add: step_bernoulli_def Let_def split: prod.splits)

lemma store_weights_hyperplanes [simp]: "hyperplanes (store_weights net ws) = hyperplanes net"
  by (simp add: store_weights_def)

lemma store_weights_length:
  "length ws \<le> length (weights net) \<Longrightarrow> length (weights (store_weights net ws)) = length (weights net)"
  by (simp add: store_weights_def)

lemma store_weights_nth:
  "length ws \<le> length (weights net) \<Longrightarrow> l < length (weights net) \<Longrightarrow>
   weights (store_weights net ws) ! l = (if l < length ws then ws ! l else weights net ! l)"
  by (simp add: store_weights_def nth_append)

lemma store_weights_same:
  "store_weights net (map fst (zip (weights net) hs)) = net"
  by (simp add: store_weights_def map_fst_zip_take)

text \<open>
  A step that returns has run the loop body on every layer: the array a layer holds after the
  step is the one the body returned for it, on the activation that reached the layer.
\<close>

lemma step_square_loss_layers:
  assumes "snd (step_square_loss inputs net b lr tgt upd) = Inr res"
    and "l < length (weights net)" and "l < length (hyperplanes net)"
  shows "\<exists>r_in0 r_out. layer_square_loss (b # inputs) lr tgt upd (weights net ! l) (hyperplanes net ! l) r_in0
           = Inr (weights (fst (step_square_loss inputs net b lr tgt upd)) ! l, r_out)"
proof -
  let ?ls = "zip (weights net) (hyperplanes net)"
  let ?body = "layer_square_loss (b # inputs) lr tgt upd"
  let ?loop = "loop_layers ?body ?ls inputs None"
  from assms(1) obtain x where x: "snd ?loop = Inr x"
    unfolding snd_step_square_loss by (auto split: sum.splits)
  have ll: "l < length ?ls" using assms(2,3) by simp
  have len: "length (fst ?loop) = length ?ls" by (rule loop_layers_length)
  have nth: "weights (fst (step_square_loss inputs net b lr tgt upd)) ! l = fst ?loop ! l"
    using assms(2,3) len by (simp add: fst_step_square_loss store_weights_nth)
  from loop_layers_success[OF x ll] show ?thesis
    unfolding nth using assms(2,3) by simp
qed

lemma step_bernoulli_layers:
  assumes "snd (step_bernoulli inputs net b lr e tgt upd) = Inr res"
    and "l < length (weights net)" and "l < length (hyperplanes net)"
  shows "\<exists>r_in0 r_out. layer_bernoulli (b # inputs) lr e tgt upd (weights net ! l) (hyperplanes net ! l) r_in0
           = Inr (weights (fst (step_bernoulli inputs net b lr e tgt upd)) ! l, r_out)"
proof -
  let ?ls = "zip (weights net) (hyperplanes net)"
  let ?body = "layer_bernoulli (b # inputs) lr e tgt upd"
  let ?loop = "loop_layers ?body ?ls (map (\<lambda>x. clip (sigmoid x) e (1 - e)) inputs) None"
  from assms(1) obtain x where x: "snd ?loop = Inr x"
    unfolding snd_step_bernoulli by (auto split: sum.splits)
  have ll: "l < length ?ls" using assms(2,3) by simp
  have len: "length (fst ?loop) = length ?ls" by (rule loop_layers_length)
  have nth: "weights (fst (step_bernoulli inputs net b lr e tgt upd)) ! l = fst ?loop ! l"
    using assms(2,3) len by (simp add: fst_step_bernoulli store_weights_nth)
  from loop_layers_success[OF x ll] show ?thesis
    unfolding nth using assms(2,3) by simp
qed

text \<open>Every layer's array after the loop is the array before it, or what the body returned.\<close>

lemma loop_store_frame:
  assumes body: "\<And>w h r w' out. body w h r = Inr (w', out) \<Longrightarrow> Q w h w'"
    and same: "\<And>w h. Q w h w"
    and l: "l < length (weights net)" "l < length (hyperplanes net)"
  shows "Q (weights net ! l) (hyperplanes net ! l)
           (weights (store_weights net
              (fst (loop_layers body (zip (weights net) (hyperplanes net)) r ro))) ! l)"
proof -
  let ?ls = "zip (weights net) (hyperplanes net)"
  let ?ws = "fst (loop_layers body ?ls r ro)"
  have len: "length ?ws = length ?ls" by (rule loop_layers_length)
  have ll: "l < length ?ls" using l by simp
  have nth: "weights (store_weights net ?ws) ! l = ?ws ! l"
    using l len by (simp add: store_weights_nth)
  have el: "fst (?ls ! l) = weights net ! l" "snd (?ls ! l) = hyperplanes net ! l"
    using l by simp_all
  from loop_layers_nth[OF ll, of body r ro] show ?thesis
    unfolding nth el using body same by (metis (no_types, lifting))
qed

lemma loop_unchanged:
  assumes "\<And>w h r w' out. body w h r = Inr (w', out) \<Longrightarrow> w' = w"
  shows "fst (loop_layers body ls r ro) = map fst ls"
  using assms
proof (induction ls arbitrary: r ro)
  case Nil
  then show ?case by simp
next
  case (Cons a ls)
  obtain w h where a: "a = (w, h)" by (cases a)
  show ?case
  proof (cases "body w h r")
    case (Inl e)
    with a show ?thesis by simp
  next
    case (Inr p)
    obtain w' o' where p: "p = (w', o')" by (cases p)
    have "w' = w" using Cons.prems Inr p by blast
    moreover have "fst (loop_layers body ls o' (Some o')) = map fst ls"
      using Cons.IH Cons.prems by blast
    ultimately show ?thesis using a Inr p by (simp add: case_prod_beta)
  qed
qed

text \<open>Two loop bodies that agree on their outputs give the same outcome of the loop.\<close>

lemma loop_same_out:
  assumes "\<And>w h r. (w, h) \<in> set ls \<Longrightarrow> layer_out (body1 w h r) = layer_out (body2 w h r)"
  shows "snd (loop_layers body1 ls r ro) = snd (loop_layers body2 ls r ro)"
  using assms
proof (induction ls arbitrary: r ro)
  case Nil
  then show ?case by simp
next
  case (Cons a ls)
  obtain w h where a: "a = (w, h)" by (cases a)
  have eq: "layer_out (body1 w h r) = layer_out (body2 w h r)"
    using Cons.prems a by simp
  have IH: "\<And>r ro. snd (loop_layers body1 ls r ro) = snd (loop_layers body2 ls r ro)"
    using Cons.IH Cons.prems by simp
  show ?case
  proof (cases "body1 w h r")
    case (Inl e)
    with eq have "body2 w h r = Inl e"
      by (auto simp: layer_out_def split: sum.splits)
    with Inl a show ?thesis by simp
  next
    case (Inr p)
    obtain w1 o1 where p: "p = (w1, o1)" by (cases p)
    with eq Inr obtain w2 where "body2 w h r = Inr (w2, o1)"
      by (auto simp: layer_out_def split: sum.splits)
    with Inr p a IH[of o1 "Some o1"] show ?thesis by (simp add: case_prod_beta)
  qed
qed

lemma loop_out_transfer:
  assumes "\<And>w h r w' out. body1 w h r = Inr (w', out) \<Longrightarrow> \<exists>w''. body2 w h r = Inr (w'', out)"
  shows "snd (loop_layers body1 ls r ro) = Inr x \<Longrightarrow> snd (loop_layers body2 ls r ro) = Inr x"
proof (induction ls arbitrary: r ro)
  case Nil
  then show ?case by simp
next
  case (Cons a ls)
  obtain w h where a: "a = (w, h)" by (cases a)
  show ?case
  proof (cases "body1 w h r")
    case (Inl e)
    with a Cons.prems show ?thesis by simp
  next
    case (Inr p)
    obtain w1 o1 where p: "p = (w1, o1)" by (cases p)
    with Inr assms obtain w2 where b2: "body2 w h r = Inr (w2, o1)" by blast
    have "snd (loop_layers body1 ls o1 (Some o1)) = Inr x"
      using Cons.prems a Inr p by (simp add: case_prod_beta)
    then have "snd (loop_layers body2 ls o1 (Some o1)) = Inr x" by (rule Cons.IH)
    with a b2 show ?thesis by (simp add: case_prod_beta)
  qed
qed

section \<open>Consequences for the two step functions\<close>

subsection \<open>The sigmoid\<close>

lemma sigmoid_eq: "sigmoid x = 1 / (1 + exp (- x))"
proof -
  have "0 < 1 + exp (- x)" by (simp add: add_pos_pos)
  then show ?thesis
    by (simp add: sigmoid_def logaddexp_def exp_minus inverse_eq_divide)
qed

lemma sigmoid_zero: "sigmoid 0 = 1 / 2"
  by (simp add: sigmoid_eq)

lemma inverse_sigmoid_sigmoid: "inverse_sigmoid (sigmoid x) = x"
proof -
  have p: "0 < 1 + exp (- x)" by (simp add: add_pos_pos)
  then have "1 - 1 / (1 + exp (- x)) = exp (- x) / (1 + exp (- x))"
    by (simp add: field_simps)
  then have "sigmoid x / (1 - sigmoid x) = 1 / exp (- x)"
    using p by (simp add: sigmoid_eq)
  also have "\<dots> = exp x" by (simp add: exp_minus inverse_eq_divide)
  finally show ?thesis by (simp add: inverse_sigmoid_def)
qed

lemma inverse_sigmoid_half: "inverse_sigmoid (1 / 2) = 0"
  by (simp add: inverse_sigmoid_def)

subsection \<open>A pass without update\<close>

lemma step_square_loss_no_update:
  "fst (step_square_loss inputs net b lr tgt False) = net"
proof -
  have "fst (loop_layers (layer_square_loss (b # inputs) lr tgt False)
          (zip (weights net) (hyperplanes net)) inputs None) = map fst (zip (weights net) (hyperplanes net))"
    by (rule loop_unchanged) (auto dest: layer_square_loss_Inr(5))
  then show ?thesis by (simp add: fst_step_square_loss store_weights_same)
qed

lemma step_bernoulli_no_update:
  "fst (step_bernoulli inputs net b lr e tgt False) = net"
proof -
  have "fst (loop_layers (layer_bernoulli (b # inputs) lr e tgt False)
          (zip (weights net) (hyperplanes net)) (map (\<lambda>x. clip (sigmoid x) e (1 - e)) inputs) None)
        = map fst (zip (weights net) (hyperplanes net))"
    by (rule loop_unchanged) (auto dest: layer_bernoulli_Inr(5))
  then show ?thesis by (simp add: fst_step_bernoulli store_weights_same)
qed

subsection \<open>The update does not feed back into the pass\<close>

lemma layer_square_loss_out_update:
  assumes "length h = length w \<or> length h = 1"
  shows "layer_out (layer_square_loss s lr (Some t) True w h r)
       = layer_out (layer_square_loss s lr (Some t) False w h r)"
  using assms by (simp add: layer_out_def layer_square_loss_def Let_def)

lemma layer_bernoulli_out_update:
  assumes "length h = length w \<or> length h = 1"
  shows "layer_out (layer_bernoulli s lr e (Some t) True w h r)
       = layer_out (layer_bernoulli s lr e (Some t) False w h r)"
  using assms by (simp add: layer_out_def layer_bernoulli_def Let_def)

lemma layer_square_loss_drop_update:
  "layer_square_loss s lr tgt True w h r = Inr (w', out) \<Longrightarrow>
   \<exists>w''. layer_square_loss s lr tgt False w h r = Inr (w'', out)"
  by (auto simp: layer_square_loss_def Let_def split: if_splits option.splits)

lemma layer_bernoulli_drop_update:
  "layer_bernoulli s lr e tgt True w h r = Inr (w', out) \<Longrightarrow>
   \<exists>w''. layer_bernoulli s lr e tgt False w h r = Inr (w'', out)"
  by (auto simp: layer_bernoulli_def Let_def split: if_splits option.splits)

lemma step_square_loss_drop_update:
  assumes "snd (step_square_loss inputs net b lr tgt True) = Inr res"
  shows "snd (step_square_loss inputs net b lr tgt False) = Inr res"
proof -
  let ?loop = "\<lambda>u. snd (loop_layers (layer_square_loss (b # inputs) lr tgt u)
                 (zip (weights net) (hyperplanes net)) inputs None)"
  from assms obtain out where o: "?loop True = Inr out"
    unfolding snd_step_square_loss by (auto split: sum.splits)
  have "?loop False = Inr out"
    by (rule loop_out_transfer[OF _ o]) (rule layer_square_loss_drop_update)
  with o assms show ?thesis by (simp add: snd_step_square_loss)
qed

lemma step_bernoulli_drop_update:
  assumes "snd (step_bernoulli inputs net b lr e tgt True) = Inr res"
  shows "snd (step_bernoulli inputs net b lr e tgt False) = Inr res"
proof -
  let ?loop = "\<lambda>u. snd (loop_layers (layer_bernoulli (b # inputs) lr e tgt u)
                 (zip (weights net) (hyperplanes net))
                 (map (\<lambda>x. clip (sigmoid x) e (1 - e)) inputs) None)"
  from assms obtain out where o: "?loop True = Inr out"
    unfolding snd_step_bernoulli by (auto split: sum.splits)
  have "?loop False = Inr out"
    by (rule loop_out_transfer[OF _ o]) (rule layer_bernoulli_drop_update)
  with o assms show ?thesis by (simp add: snd_step_bernoulli)
qed

subsection \<open>What the update leaves alone\<close>

lemma layer_square_loss_frame:
  assumes run: "layer_square_loss s lr tgt upd w h r = Inr (w', out)"
  shows "map (map length) w' = map (map length) w"
    and "i < length w \<Longrightarrow> i < length h \<Longrightarrow> j < length (w ! i) \<Longrightarrow> \<not> gate_values h s ! i ! j
         \<Longrightarrow> w' ! i ! j = w ! i ! j"
proof -
  note f = layer_square_loss_Inr[OF run]
  have both: "map (map length) w' = map (map length) w \<and>
     (i < length w \<longrightarrow> i < length h \<longrightarrow> j < length (w ! i) \<longrightarrow> \<not> gate_values h s ! i ! j
         \<longrightarrow> w' ! i ! j = w ! i ! j)"
  proof (cases upd)
    case False
    with f(5) show ?thesis by simp
  next
    case True
    let ?g = "gate_values h s"
    from f(6)[OF True] obtain t where bc: "length ?g = length w \<or> length ?g = 1"
      and w': "w' = weight_update lr ?g (square_grad out t (1 # r)) w" by auto
    let ?grad = "square_grad out t (1 # r)"
    have lg: "length ?grad = length ?g" using f(4) by simp
    have gr: "\<And>k. k < length ?grad \<Longrightarrow> length (?grad ! k) = Suc (length r)"
      by (simp add: square_grad_nth)
    show ?thesis unfolding w'
      using weight_update_shape[OF bc lg f(2) f(3) gr, of lr]
            weight_update_inactive[OF bc lg f(2) f(3) gr, of i j lr]
      by simp
  qed
  from both show "map (map length) w' = map (map length) w" by simp
  from both show "i < length w \<Longrightarrow> i < length h \<Longrightarrow> j < length (w ! i) \<Longrightarrow> \<not> gate_values h s ! i ! j
         \<Longrightarrow> w' ! i ! j = w ! i ! j" by simp
qed

lemma layer_bernoulli_frame:
  assumes run: "layer_bernoulli s lr e tgt upd w h r = Inr (w', out)"
  shows "map (map length) w' = map (map length) w"
    and "i < length w \<Longrightarrow> i < length h \<Longrightarrow> j < length (w ! i) \<Longrightarrow> \<not> gate_values h s ! i ! j
         \<Longrightarrow> w' ! i ! j = w ! i ! j"
proof -
  note f = layer_bernoulli_Inr[OF run]
  have both: "map (map length) w' = map (map length) w \<and>
     (i < length w \<longrightarrow> i < length h \<longrightarrow> j < length (w ! i) \<longrightarrow> \<not> gate_values h s ! i ! j
         \<longrightarrow> w' ! i ! j = w ! i ! j)"
  proof (cases upd)
    case False
    with f(5) show ?thesis by simp
  next
    case True
    let ?g = "gate_values h s"
    let ?ru = "bernoulli_r_out_unclipped s w h (sigmoid 1 # r)"
    let ?hin = "bernoulli_h_in (sigmoid 1 # r)"
    from f(6)[OF True] obtain t where bc: "length ?g = length w \<or> length ?g = 1"
      and w': "w' = weight_update lr ?g (bernoulli_grad e ?ru out t ?hin) w" by auto
    let ?grad = "bernoulli_grad e ?ru out t ?hin"
    have ru: "length ?ru = length out" and out: "length out = length h" using f(4) by simp_all
    have lg: "length ?grad = length ?g" using ru out by simp
    have gr: "\<And>k. k < length ?grad \<Longrightarrow> length (?grad ! k) = Suc (length r)"
      using ru by (simp add: bernoulli_grad_nth bernoulli_h_in_def)
    show ?thesis unfolding w'
      using weight_update_shape[OF bc lg f(2) f(3) gr, of lr]
            weight_update_inactive[OF bc lg f(2) f(3) gr, of i j lr]
      by simp
  qed
  from both show "map (map length) w' = map (map length) w" by simp
  from both show "i < length w \<Longrightarrow> i < length h \<Longrightarrow> j < length (w ! i) \<Longrightarrow> \<not> gate_values h s ! i ! j
         \<Longrightarrow> w' ! i ! j = w ! i ! j" by simp
qed

lemma loop_store_all:
  assumes body: "\<And>w h r w' out. body w h r = Inr (w', out) \<Longrightarrow> f w' = f w"
  shows "map f (weights (store_weights net
              (fst (loop_layers body (zip (weights net) (hyperplanes net)) r ro))))
       = map f (weights net)"
proof (rule nth_equalityI)
  let ?ls = "zip (weights net) (hyperplanes net)"
  let ?ws = "fst (loop_layers body ?ls r ro)"
  have len: "length ?ws = length ?ls" by (rule loop_layers_length)
  then have le: "length ?ws \<le> length (weights net)" by simp
  show l1: "length (map f (weights (store_weights net ?ws))) = length (map f (weights net))"
    using store_weights_length[OF le] by simp
  fix l assume "l < length (map f (weights (store_weights net ?ws)))"
  then have l: "l < length (weights net)" using l1 by simp
  have "f (weights (store_weights net ?ws) ! l) = f (weights net ! l)"
  proof (cases "l < length (hyperplanes net)")
    case True
    show ?thesis
      by (rule loop_store_frame[where Q = "\<lambda>w h w'. f w' = f w", OF _ _ l True]) (auto dest: body)
  next
    case False
    then show ?thesis using l len by (simp add: store_weights_nth[OF le])
  qed
  then show "map f (weights (store_weights net ?ws)) ! l = map f (weights net) ! l"
    using l l1 by simp
qed

subsection \<open>Normalising the hyperplanes\<close>

lemma sum_sq_nonneg: "0 \<le> sum_list (map (\<lambda>x. x\<^sup>2) (row :: vec))"
  by (rule sum_list_nonneg) auto

lemma frobenius_sq_nonneg: "0 \<le> sum_list (map (\<lambda>row. sum_list (map (\<lambda>x. x\<^sup>2) row)) (m :: mat))"
  by (rule sum_list_nonneg) (auto simp: sum_sq_nonneg)

lemma sum_sq_divide:
  "sum_list (map (\<lambda>x. x\<^sup>2) (map (\<lambda>x. x / c) (row :: vec))) = sum_list (map (\<lambda>x. x\<^sup>2) row) / c\<^sup>2"
  by (induction row) (simp_all add: power_divide add_divide_distrib)

lemma frobenius_sq_divide:
  "sum_list (map (\<lambda>row. sum_list (map (\<lambda>x. x\<^sup>2) row)) (map (map (\<lambda>x. x / c)) m))
   = sum_list (map (\<lambda>row. sum_list (map (\<lambda>x. x\<^sup>2) row)) (m :: mat)) / c\<^sup>2"
proof (induction m)
  case Nil
  then show ?case by simp
next
  case (Cons row m)
  then show ?case using sum_sq_divide[of c row] by (simp add: add_divide_distrib)
qed

lemma frobenius_norm_nonneg: "0 \<le> frobenius_norm m"
  by (simp add: frobenius_norm_def frobenius_sq_nonneg)

lemma frobenius_norm_scaled:
  assumes "frobenius_norm m \<noteq> 0"
  shows "frobenius_norm (map (map (\<lambda>x. x / frobenius_norm m)) m) = 1"
proof -
  let ?S = "sum_list (map (\<lambda>row. sum_list (map (\<lambda>x. x\<^sup>2) row)) m)"
  have S: "0 \<le> ?S" by (rule frobenius_sq_nonneg)
  have c: "frobenius_norm m = sqrt ?S" by (simp add: frobenius_norm_def)
  with assms S have pos: "0 < ?S" by (cases "?S = 0") auto
  have "frobenius_norm (map (map (\<lambda>x. x / frobenius_norm m)) m) = sqrt (?S / (sqrt ?S)\<^sup>2)"
    unfolding frobenius_norm_def[of "map _ _"] frobenius_sq_divide c ..
  also have "\<dots> = 1" using pos by simp
  finally show ?thesis .
qed

lemma sqrt_25: "sqrt 25 = 5"
  using real_sqrt_abs[of 5] by simp

subsection \<open>Evaluation on concrete networks\<close>

lemmas bern_defs = step_bernoulli_def layer_bernoulli_def last_axis_is_def
  branches_match_def gate_values_def dot_def astype_bool_def heaviside_def mat_dot_def
  effective_weights_def sum_axis1_def gate_dot_def last_dim_def weight_update_def broadcast0_def
  bernoulli_grad_def bernoulli_h_in_def bernoulli_r_out_unclipped_def bernoulli_loss_def clip_def
  store_weights_def Let_def eval_nat_numeral upt_rec sigmoid_zero inverse_sigmoid_sigmoid
  inverse_sigmoid_half

section \<open>The claims\<close>

subsection \<open>C1: effective weights\<close>

lemma effective_weights_nth:
  assumes "i < length g" and "m < last_dim w"
  shows "effective_weights g w ! i ! m
       = sum_list (map (\<lambda>wk. sum_list (map2 (\<lambda>gv wv. of_bool gv * wv ! m) (g ! i) wk)) w)"
  using assms
  by (simp add: effective_weights_def sum_axis1_def gate_dot_def o_def)

text \<open>For a layer of one neuron the two rules agree; the last layer is such a layer.\<close>

lemma effective_weights_single_neuron:
  "effective_weights [gi] [wi] = masked_effective_weights [gi] [wi]"
  by (simp add: effective_weights_def sum_axis1_def gate_dot_def masked_effective_weights_def o_def)

text \<open>
  Claim C1: in both regimes the effective weight vector of a neuron is the sum of that
  neuron's own branch weight vectors over its own active gates, and no other neuron's weights
  contribute. Both step functions compute \<open>gate_values.dot(w).sum(axis=1)\<close>. For a
  two-dimensional gate array and a three-dimensional weight array, \<open>dot\<close> pairs every gate
  row with every neuron of \<open>w\<close>, and the sum over axis 1 then adds the neurons up
  (\<open>effective_weights_nth\<close>). The theorem runs the code on a layer of two neurons with one
  branch each, both gates active, weights \<open>[1, 0]\<close> and \<open>[0, 1]\<close>: the code gives both
  neurons \<open>[1, 1]\<close>, the rule of the claim gives \<open>[1, 0]\<close> and \<open>[0, 1]\<close>, and the
  prediction of the two-layer network on top is 4 where the claimed rule would give 2.
\<close>

theorem effective_weights_mix_neurons:
  "effective_weights (gate_values [[[1, 0]], [[1, 0]]] [1, 1]) [[[1, 0]], [[0, 1]]] = [[1, 1], [1, 1]]
   \<and> masked_effective_weights (gate_values [[[1, 0]], [[1, 0]]] [1, 1]) [[[1, 0]], [[0, 1]]]
       = [[1, 0], [0, 1]]
   \<and> step_square_loss [1]
        \<lparr>weights = [[[[1, 0]], [[0, 1]]], [[[0, 1, 1]]]],
         hyperplanes = [[[[1, 0]], [[1, 0]]], [[[1, 0]]]]\<rparr> 1 (1 / 10) (Some 0) False
      = (\<lparr>weights = [[[[1, 0]], [[0, 1]]], [[[0, 1, 1]]]],
          hyperplanes = [[[[1, 0]], [[1, 0]]], [[[1, 0]]]]\<rparr>, Inr ([4], [8]))"
  by code_simp

subsection \<open>C2: the squared-loss update\<close>

text \<open>
  Claim C2: with update on, the gradient of a squared-loss layer is (prediction - target)
  times the activation entering the layer with its bias unit in front, and every active
  branch's weight vector changes by minus learning rate times gate times gradient. The
  prediction here is the layer's own output \<open>r_out\<close>, one number per neuron, computed from
  the weights before the update. The statement is about one pass of the loop body, for any
  layer and any activation reaching it; \<open>step_square_loss_layers\<close> says that a step that
  returns has made such a pass on every layer. For neuron \<open>i\<close>, branch \<open>j\<close> and input
  position \<open>m\<close>:
\<close>

theorem square_loss_update_rule:
  assumes run: "layer_square_loss side_info learning_rate (Some target) True w h r_in0 = Inr (w', r_out)"
    and i: "i < length w" "i < length h" and j: "j < length (w ! i)" and m: "m \<le> length r_in0"
  shows "square_grad r_out target (1 # r_in0) ! i ! m = (r_out ! i - target) * (1 # r_in0) ! m
       \<and> w' ! i ! j ! m =
           w ! i ! j ! m - learning_rate * of_bool (gate_values h side_info ! i ! j)
                             * square_grad r_out target (1 # r_in0) ! i ! m
       \<and> (gate_values h side_info ! i ! j \<longrightarrow>
            w' ! i ! j ! m - w ! i ! j ! m
              = - learning_rate * ((r_out ! i - target) * (1 # r_in0) ! m))"
proof -
  let ?g = "gate_values h side_info"
  let ?grad = "square_grad r_out target (1 # r_in0)"
  note f = layer_square_loss_Inr[OF run]
  have out: "length r_out = length h" using f(4) by simp
  from f(6) have bc: "length ?g = length w \<or> length ?g = 1"
    and w': "w' = weight_update learning_rate ?g ?grad w" by auto
  have lg: "length ?grad = length ?g" using out by simp
  have gr: "\<And>k. k < length ?grad \<Longrightarrow> length (?grad ! k) = Suc (length r_in0)"
    by (simp add: square_grad_nth)
  have m': "m < Suc (length r_in0)" using m by simp
  have g1: "?grad ! i ! m = (r_out ! i - target) * (1 # r_in0) ! m"
  proof -
    have "?grad ! i = map (\<lambda>x. (r_out ! i - target) * x) (1 # r_in0)"
      using i out by (simp add: square_grad_nth)
    moreover have "map (\<lambda>x. (r_out ! i - target) * x) (1 # r_in0) ! m
        = (r_out ! i - target) * (1 # r_in0) ! m"
      using m' by (intro nth_map) simp
    ultimately show ?thesis by (simp only:)
  qed
  have ig: "i < length ?g" using i by simp
  have g2: "w' ! i ! j ! m = w ! i ! j ! m - learning_rate * of_bool (?g ! i ! j) * ?grad ! i ! m"
    unfolding w' by (rule weight_update_entry[OF bc lg f(2) f(3) gr i(1) ig j m'])
  show ?thesis using g1 g2 by simp
qed

theorem square_loss_update_rule_witness:
  "layer_square_loss [1, 3] (1 / 2) (Some 1) True [[[1, 2]], [[3, 4]]] [[[1, 0]], [[-1, 0]]] [3]
     = Inr ([[[- 19 / 2, - 59 / 2]], [[3, 4]]], [22, 0])
   \<and> gate_values [[[1, 0]], [[-1, 0]]] [1, 3] ! 0 ! 0
   \<and> square_grad [22, 0] 1 [1, 3] ! 0 ! 1 = ([22, 0] ! 0 - 1) * [1, 3] ! 1
   \<and> [[[- 19 / 2, - 59 / 2]], [[3, 4 :: real]]] ! 0 ! 0 ! 1 - [[[1, 2]], [[3, 4 :: real]]] ! 0 ! 0 ! 1
       = - (1 / 2) * (([22, 0] ! 0 - 1) * [1, 3] ! 1)"
proof -
  have run: "layer_square_loss [1, 3] (1 / 2) (Some 1) True [[[1, 2]], [[3, 4]]] [[[1, 0]], [[-1, 0]]] [3]
     = Inr ([[[- 19 / 2, - 59 / 2]], [[3, 4]]], [22, 0])"
    by code_simp
  have g: "gate_values [[[1, 0]], [[-1, 0]]] [1, 3] ! 0 ! 0"
    by code_simp
  have p: "0 < length [[[1, 2]], [[3, 4 :: real]]]" "0 < length [[[1, 0]], [[-1, 0 :: real]]]"
    "0 < length ([[[1, 2]], [[3, 4 :: real]]] ! 0)" "1 \<le> length [3 :: real]"
    by simp_all
  note inst = square_loss_update_rule[OF run p]
  from inst g show ?thesis using run by blast
qed

subsection \<open>C3: normalisation of the hyperplanes\<close>

text \<open>
  Claim C3: after initialisation every single hyperplane vector, one per neuron and branch,
  has non-bias components of unit Euclidean norm. The initialisation divides a neuron's whole
  block by one number, the Frobenius norm of the block without the last component of each
  vector. For a neuron with two branches drawn as \<open>[3, 1]\<close> and \<open>[4, 1]\<close> the divisor
  is 5 and the first branch becomes \<open>[3/5, 1/5]\<close>: neither its components after the first
  (the bias comes first in \<open>side_info\<close>) nor its components before the last have norm 1.
\<close>

theorem hyperplane_branch_not_unit_norm:
  "dgn_hyperplanes [[[[3, 1], [4, 1]]]] ! 0 ! 0 ! 0 = [3 / 5, 1 / 5]
   \<and> l2_norm (tl (dgn_hyperplanes [[[[3, 1], [4, 1]]]] ! 0 ! 0 ! 0)) \<noteq> 1
   \<and> l2_norm (butlast (dgn_hyperplanes [[[[3, 1], [4, 1]]]] ! 0 ! 0 ! 0)) \<noteq> 1"
proof -
  have h: "dgn_hyperplanes [[[[3, 1], [4, 1]]]] ! 0 ! 0 ! 0 = [3 / 5, 1 / 5]"
    by (simp add: frobenius_norm_def dgn_hyperplanes_def normalise_layer_def sqrt_25)
  have a: "l2_norm [1 / 5] = 1 / 5"
    using real_sqrt_abs[of "1 / 5"] by (simp add: l2_norm_def)
  have b: "l2_norm [3 / 5] = 3 / 5"
    using real_sqrt_abs[of "3 / 5"] by (simp add: l2_norm_def)
  show ?thesis by (simp add: h a b)
qed

text \<open>
  Claim C3 as amended: for every layer and every neuron whose drawn block is not all zero
  on the components the norm ranges over, those components of the neuron's hyperplanes, taken
  over all branches of the neuron together, have Frobenius norm 1.
\<close>

theorem hyperplanes_unit_norm_per_neuron:
  assumes "l < length drawn" and "n < length (drawn ! l)"
    and "frobenius_norm (map butlast (drawn ! l ! n)) \<noteq> 0"
  shows "frobenius_norm (map butlast (dgn_hyperplanes drawn ! l ! n)) = 1"
proof -
  let ?c = "frobenius_norm (map butlast (drawn ! l ! n))"
  have "dgn_hyperplanes drawn ! l ! n = map (map (\<lambda>x. x / ?c)) (drawn ! l ! n)"
    using assms(1,2) by (simp add: dgn_hyperplanes_def normalise_layer_def)
  then have "map butlast (dgn_hyperplanes drawn ! l ! n)
      = map (map (\<lambda>x. x / ?c)) (map butlast (drawn ! l ! n))"
    by (simp add: map_butlast)
  then show ?thesis using frobenius_norm_scaled[OF assms(3)] by simp
qed

theorem hyperplanes_unit_norm_per_neuron_witness:
  "frobenius_norm (map butlast ([[[[3, 1], [4, 1]]]] ! 0 ! 0)) = 5
   \<and> dgn_hyperplanes [[[[3, 1], [4, 1]]]] = [[[[3 / 5, 1 / 5], [4 / 5, 1 / 5]]]]
   \<and> frobenius_norm (map butlast (dgn_hyperplanes [[[[3, 1], [4, 1]]]] ! 0 ! 0)) = 1"
proof -
  have c: "frobenius_norm (map butlast ([[[[3, 1], [4, 1]]]] ! 0 ! 0)) = 5"
    by (simp add: frobenius_norm_def sqrt_25)
  have h: "dgn_hyperplanes [[[[3, 1], [4, 1]]]] = [[[[3 / 5, 1 / 5], [4 / 5, 1 / 5]]]]"
    by (simp add: frobenius_norm_def dgn_hyperplanes_def normalise_layer_def sqrt_25)
  have p: "0 < length [[[[3, 1], [4, 1 :: real]]]]" "0 < length ([[[[3, 1], [4, 1 :: real]]]] ! 0)"
    "frobenius_norm (map butlast ([[[[3, 1], [4, 1]]]] ! 0 ! 0)) \<noteq> 0"
    using c by simp_all
  from hyperplanes_unit_norm_per_neuron[OF p] c h show ?thesis by blast
qed

subsection \<open>C4: the gate\<close>

text \<open>
  Claim C4: in both regimes the gate of a neuron's branch is active exactly when the dot
  product of the branch's hyperplane with the side information is strictly positive; a dot
  product of exactly zero leaves the gate inactive. Both loop bodies compute the gates as
  \<open>gate_values h side_info\<close> with \<open>side_info\<close> the bias magnitude followed by the raw
  inputs.
\<close>

theorem gate_active_iff_positive:
  assumes "n < length h" and "b < length (h ! n)"
  shows "(gate_values h (hyperplane_bias_magnitude # inputs) ! n ! b
            \<longleftrightarrow> 0 < dot (h ! n ! b) (hyperplane_bias_magnitude # inputs))
       \<and> (dot (h ! n ! b) (hyperplane_bias_magnitude # inputs) = 0
            \<longrightarrow> \<not> gate_values h (hyperplane_bias_magnitude # inputs) ! n ! b)"
  using assms by (simp add: gate_values_nth)

theorem gate_active_iff_positive_witness:
  "gate_values [[[1, 0, 0], [-1, 2, 0], [-2, 1, 1]]] [1, 1, 1] ! 0 ! 0
   \<and> \<not> gate_values [[[1, 0, 0], [-1, 2, 0], [-2, 1, 1]]] [1, 1, 1] ! 0 ! 2
   \<and> dot [-2, 1, 1] [1, 1, 1] = 0"
  using gate_active_iff_positive[of 0 "[[[1, 0, 0], [-1, 2, 0], [-2, 1, 1]]]" 0 1 "[1, 1]"]
        gate_active_iff_positive[of 0 "[[[1, 0, 0], [-1, 2, 0], [-2, 1, 1]]]" 2 1 "[1, 1]"]
  by (simp add: dot_def)

subsection \<open>C5: Bernoulli activations stay inside the clipping interval\<close>

text \<open>
  Claim C5: every activation vector that a layer of \<open>step_bernoulli\<close> produces, the
  returned prediction included, has all components in the closed interval from epsilon to
  1 - epsilon, whatever the inputs, the target and the weights are. The interval is non-empty
  for epsilon up to one half (the default is 0.01); the clipped input activations are covered
  as well.
\<close>

theorem bernoulli_activations_clipped:
  assumes eps: "epsilon \<le> 1 / 2"
  shows "list_all (\<lambda>x. epsilon \<le> x \<and> x \<le> 1 - epsilon)
           (map (\<lambda>x. clip (sigmoid x) epsilon (1 - epsilon)) inputs)
       \<and> (layer_bernoulli side_info learning_rate epsilon target update w h r_in0 = Inr (w', r_out)
            \<longrightarrow> list_all (\<lambda>x. epsilon \<le> x \<and> x \<le> 1 - epsilon) r_out)
       \<and> (snd (step_bernoulli inputs net hyperplane_bias_magnitude learning_rate epsilon target update)
              = Inr (prediction, loss)
            \<longrightarrow> list_all (\<lambda>x. epsilon \<le> x \<and> x \<le> 1 - epsilon) prediction)"
proof -
  let ?P = "list_all (\<lambda>x. epsilon \<le> x \<and> x \<le> 1 - epsilon)"
  have le: "epsilon \<le> 1 - epsilon" using eps by simp
  have clipped: "\<And>f xs. ?P (map (\<lambda>x. clip (f x) epsilon (1 - epsilon)) xs)"
    using clip_range[OF le] by (simp add: list_all_iff)
  have layer: "?P out" if "layer_bernoulli s lr epsilon tgt upd v k r = Inr (v', out)"
    for s lr tgt upd v k r v' out
    using layer_bernoulli_Inr(4)[OF that] clipped[of "\<lambda>x. x"] by simp
  have step: "?P prediction"
    if run: "snd (step_bernoulli inputs net hyperplane_bias_magnitude learning_rate epsilon target update)
              = Inr (prediction, loss)"
  proof -
    let ?body = "layer_bernoulli (hyperplane_bias_magnitude # inputs) learning_rate epsilon target update"
    let ?loop = "loop_layers ?body (zip (weights net) (hyperplanes net))
                   (map (\<lambda>x. clip (sigmoid x) epsilon (1 - epsilon)) inputs) None"
    from run have "snd ?loop = Inr (Some prediction)"
      unfolding snd_step_bernoulli by (auto split: sum.splits option.splits)
    then show ?thesis
      by (rule loop_layers_out[where P = ?P and body = ?body, rotated]) (auto intro: layer)
  qed
  show ?thesis using clipped[of sigmoid inputs] layer step by blast
qed

theorem bernoulli_activations_clipped_witness:
  "(1 / 100 :: real) \<le> 1 / 2
   \<and> snd (step_bernoulli [0] \<lparr>weights = [[[[0, 0]]]], hyperplanes = [[[[1, 0]]]]\<rparr> 1 (1 / 10) (1 / 100) (Some 1) False)
       = Inr ([1 / 2], [ln 2])
   \<and> layer_bernoulli [1, 0] (1 / 10) (1 / 100) (Some 1) False [[[0, 0]]] [[[1, 0]]] [1 / 2]
       = Inr ([[[0, 0]]], [1 / 2])
   \<and> list_all (\<lambda>x. 1 / 100 \<le> x \<and> x \<le> 1 - 1 / 100) [1 / 2 :: real]
   \<and> list_all (\<lambda>x. 1 / 100 \<le> x \<and> x \<le> 1 - 1 / 100) (map (\<lambda>x. clip (sigmoid x) (1 / 100) (1 - 1 / 100)) [0])"
proof -
  have e: "(1 / 100 :: real) \<le> 1 / 2" by simp
  have step: "snd (step_bernoulli [0] \<lparr>weights = [[[[0, 0]]]], hyperplanes = [[[[1, 0]]]]\<rparr> 1 (1 / 10) (1 / 100) (Some 1) False)
       = Inr ([1 / 2], [ln 2])"
    by (simp add: bern_defs inverse_sigmoid_half ln_div)
  have layer: "layer_bernoulli [1, 0] (1 / 10) (1 / 100) (Some 1) False [[[0, 0]]] [[[1, 0]]] [1 / 2]
       = Inr ([[[0, 0]]], [1 / 2])"
    by (simp add: bern_defs inverse_sigmoid_half)
  show ?thesis
    using e step layer
      bernoulli_activations_clipped[OF e, of "[0]" "[1, 0]" "1 / 10" "Some 1" False "[[[0, 0]]]" "[[[1, 0]]]"
        "[1 / 2]" "[[[0, 0]]]" "[1 / 2]" "\<lparr>weights = [[[[0, 0]]]], hyperplanes = [[[[1, 0]]]]\<rparr>" 1 "[1 / 2]" "[ln 2]"]
    by simp
qed

subsection \<open>C6: what a call leaves unchanged\<close>

lemma step_square_loss_frame:
  "hyperplanes (fst (step_square_loss inputs net b lr tgt upd)) = hyperplanes net
   \<and> map (map (map length)) (weights (fst (step_square_loss inputs net b lr tgt upd)))
       = map (map (map length)) (weights net)
   \<and> (l < length (weights net) \<and> l < length (hyperplanes net)
        \<and> i < length (weights net ! l) \<and> i < length (hyperplanes net ! l)
        \<and> j < length (weights net ! l ! i)
        \<and> \<not> gate_values (hyperplanes net ! l) (b # inputs) ! i ! j
      \<longrightarrow> weights (fst (step_square_loss inputs net b lr tgt upd)) ! l ! i ! j = weights net ! l ! i ! j)"
proof -
  let ?s = "b # inputs"
  let ?Q = "\<lambda>w h w'. i < length w \<longrightarrow> i < length h \<longrightarrow> j < length (w ! i) \<longrightarrow>
                \<not> gate_values h ?s ! i ! j \<longrightarrow> w' ! i ! j = w ! i ! j"
  let ?body = "layer_square_loss ?s lr tgt upd"
  let ?net' = "fst (step_square_loss inputs net b lr tgt upd)"
  have a: "hyperplanes ?net' = hyperplanes net" by (simp add: fst_step_square_loss)
  have b: "map (map (map length)) (weights ?net') = map (map (map length)) (weights net)"
    unfolding fst_step_square_loss
    by (rule loop_store_all) (rule layer_square_loss_frame(1))
  have c: "?Q (weights net ! l) (hyperplanes net ! l) (weights ?net' ! l)"
    if "l < length (weights net)" "l < length (hyperplanes net)"
    unfolding fst_step_square_loss
    by (rule loop_store_frame[where Q = ?Q and body = ?body, OF _ _ that])
       (auto dest: layer_square_loss_frame(2))
  show ?thesis using a b c by blast
qed

lemma step_bernoulli_frame:
  "hyperplanes (fst (step_bernoulli inputs net b lr e tgt upd)) = hyperplanes net
   \<and> map (map (map length)) (weights (fst (step_bernoulli inputs net b lr e tgt upd)))
       = map (map (map length)) (weights net)
   \<and> (l < length (weights net) \<and> l < length (hyperplanes net)
        \<and> i < length (weights net ! l) \<and> i < length (hyperplanes net ! l)
        \<and> j < length (weights net ! l ! i)
        \<and> \<not> gate_values (hyperplanes net ! l) (b # inputs) ! i ! j
      \<longrightarrow> weights (fst (step_bernoulli inputs net b lr e tgt upd)) ! l ! i ! j = weights net ! l ! i ! j)"
proof -
  let ?s = "b # inputs"
  let ?Q = "\<lambda>w h w'. i < length w \<longrightarrow> i < length h \<longrightarrow> j < length (w ! i) \<longrightarrow>
                \<not> gate_values h ?s ! i ! j \<longrightarrow> w' ! i ! j = w ! i ! j"
  let ?body = "layer_bernoulli ?s lr e tgt upd"
  let ?net' = "fst (step_bernoulli inputs net b lr e tgt upd)"
  have a: "hyperplanes ?net' = hyperplanes net" by (simp add: fst_step_bernoulli)
  have b: "map (map (map length)) (weights ?net') = map (map (map length)) (weights net)"
    unfolding fst_step_bernoulli
    by (rule loop_store_all) (rule layer_bernoulli_frame(1))
  have c: "?Q (weights net ! l) (hyperplanes net ! l) (weights ?net' ! l)"
    if "l < length (weights net)" "l < length (hyperplanes net)"
    unfolding fst_step_bernoulli
    by (rule loop_store_frame[where Q = ?Q and body = ?body, OF _ _ that])
       (auto dest: layer_bernoulli_frame(2))
  show ?thesis using a b c by blast
qed

text \<open>
  Claim C6: after a call of either step function, with update on, the weight vector of every
  branch whose gate is inactive for the example is the same as before the call; and no call,
  whatever the update flag, changes the hyperplanes or the configuration of the network (the
  number of layers, neurons, branches and inputs, read off the shapes of the weight arrays).
  The statement covers calls that raise after some layers have been updated.
\<close>

theorem step_frame:
  "(l < length (weights net) \<and> l < length (hyperplanes net)
      \<and> i < length (weights net ! l) \<and> i < length (hyperplanes net ! l)
      \<and> j < length (weights net ! l ! i)
      \<and> \<not> gate_values (hyperplanes net ! l) (hyperplane_bias_magnitude # inputs) ! i ! j
    \<longrightarrow> weights (fst (step_square_loss inputs net hyperplane_bias_magnitude learning_rate target update))
           ! l ! i ! j = weights net ! l ! i ! j
       \<and> weights (fst (step_bernoulli inputs net hyperplane_bias_magnitude learning_rate epsilon target update))
           ! l ! i ! j = weights net ! l ! i ! j)
   \<and> hyperplanes (fst (step_square_loss inputs net hyperplane_bias_magnitude learning_rate target update))
       = hyperplanes net
   \<and> hyperplanes (fst (step_bernoulli inputs net hyperplane_bias_magnitude learning_rate epsilon target update))
       = hyperplanes net
   \<and> map (map (map length))
        (weights (fst (step_square_loss inputs net hyperplane_bias_magnitude learning_rate target update)))
       = map (map (map length)) (weights net)
   \<and> map (map (map length))
        (weights (fst (step_bernoulli inputs net hyperplane_bias_magnitude learning_rate epsilon target update)))
       = map (map (map length)) (weights net)"
  using
    step_square_loss_frame[of inputs net hyperplane_bias_magnitude learning_rate target update l i j]
    step_bernoulli_frame[of inputs net hyperplane_bias_magnitude learning_rate epsilon target update l i j]
  by blast

theorem step_frame_witness:
  "\<not> gate_values [[[1, 0]], [[-1, 0]]] [1, 3] ! 1 ! 0
   \<and> fst (step_square_loss [3]
        \<lparr>weights = [[[[1, 2]], [[3, 4]]], [[[0, 0, 0]]]],
         hyperplanes = [[[[1, 0]], [[-1, 0]]], [[[1, 0]]]]\<rparr> 1 (1 / 2) (Some 1) True)
      = \<lparr>weights = [[[[- 19 / 2, - 59 / 2]], [[3, 4]]], [[[1 / 2, 11, 0]]]],
         hyperplanes = [[[[1, 0]], [[-1, 0]]], [[[1, 0]]]]\<rparr>
   \<and> weights (fst (step_square_loss [3]
        \<lparr>weights = [[[[1, 2]], [[3, 4]]], [[[0, 0, 0]]]],
         hyperplanes = [[[[1, 0]], [[-1, 0]]], [[[1, 0]]]]\<rparr> 1 (1 / 2) (Some 1) True)) ! 0 ! 1 ! 0
      = [3, 4]
   \<and> weights (fst (step_bernoulli [3]
        \<lparr>weights = [[[[1, 2]], [[3, 4]]], [[[0, 0, 0]]]],
         hyperplanes = [[[[1, 0]], [[-1, 0]]], [[[1, 0]]]]\<rparr> 1 (1 / 2) (1 / 100) (Some 1) True)) ! 0 ! 1 ! 0
      = [3, 4]
   \<and> hyperplanes (fst (step_bernoulli [3]
        \<lparr>weights = [[[[1, 2]], [[3, 4]]], [[[0, 0, 0]]]],
         hyperplanes = [[[[1, 0]], [[-1, 0]]], [[[1, 0]]]]\<rparr> 1 (1 / 2) (1 / 100) (Some 1) True))
      = [[[[1, 0]], [[-1, 0]]], [[[1, 0]]]]"
proof -
  let ?net = "\<lparr>weights = [[[[1, 2]], [[3, 4]]], [[[0, 0, 0]]]],
               hyperplanes = [[[[1, 0]], [[-1, 0]]], [[[1, 0 :: real]]]]\<rparr>"
  have off: "\<not> gate_values [[[1, 0]], [[-1, 0]]] [1, 3] ! 1 ! 0"
    by code_simp
  have hyp: "0 < length (weights ?net) \<and> 0 < length (hyperplanes ?net)
      \<and> 1 < length (weights ?net ! 0) \<and> 1 < length (hyperplanes ?net ! 0)
      \<and> 0 < length (weights ?net ! 0 ! 1)
      \<and> \<not> gate_values (hyperplanes ?net ! 0) (1 # [3]) ! 1 ! 0"
    using off by simp
  have run: "fst (step_square_loss [3] ?net 1 (1 / 2) (Some 1) True)
      = \<lparr>weights = [[[[- 19 / 2, - 59 / 2]], [[3, 4]]], [[[1 / 2, 11, 0]]]],
         hyperplanes = [[[[1, 0]], [[-1, 0]]], [[[1, 0]]]]\<rparr>"
    by code_simp
  have old: "weights ?net ! 0 ! 1 ! 0 = [3, 4]" "hyperplanes ?net = [[[[1, 0]], [[-1, 0]]], [[[1, 0]]]]"
    by simp_all
  note inst = step_frame[of 0 ?net 1 0 1 "[3]" "1 / 2" "Some 1" True "1 / 100"]
  from inst hyp have
    "weights (fst (step_square_loss [3] ?net 1 (1 / 2) (Some 1) True)) ! 0 ! 1 ! 0 = weights ?net ! 0 ! 1 ! 0"
    "weights (fst (step_bernoulli [3] ?net 1 (1 / 2) (1 / 100) (Some 1) True)) ! 0 ! 1 ! 0 = weights ?net ! 0 ! 1 ! 0"
    "hyperplanes (fst (step_bernoulli [3] ?net 1 (1 / 2) (1 / 100) (Some 1) True)) = hyperplanes ?net"
    by blast+
  then show ?thesis unfolding old using off run by blast
qed

subsection \<open>C7: the Bernoulli update indicator\<close>

text \<open>
  Claim C7: in the Bernoulli regime with update on, an output unit whose unclipped
  prediction (the sigmoid output before clipping) is within epsilon of the target changes
  none of its weights; when the update is applied, its gradient is the clipped prediction
  minus the target, times the input in log-odds space. The statement is about one pass of the
  loop body; by \<open>step_bernoulli_layers\<close> a step that returns has made such a pass on every
  layer.
\<close>

theorem bernoulli_update_indicator:
  assumes run: "layer_bernoulli side_info learning_rate epsilon (Some target) True w h r_in0 = Inr (w', r_out)"
    and i: "i < length w" "i < length h" and j: "j < length (w ! i)" and m: "m \<le> length r_in0"
  shows "r_out ! i = clip (bernoulli_r_out_unclipped side_info w h (sigmoid 1 # r_in0) ! i) epsilon (1 - epsilon)
       \<and> (\<bar>target - bernoulli_r_out_unclipped side_info w h (sigmoid 1 # r_in0) ! i\<bar> \<le> epsilon
            \<longrightarrow> w' ! i = w ! i)
       \<and> (\<bar>target - bernoulli_r_out_unclipped side_info w h (sigmoid 1 # r_in0) ! i\<bar> > epsilon
            \<longrightarrow> w' ! i ! j ! m =
                  w ! i ! j ! m - learning_rate * of_bool (gate_values h side_info ! i ! j)
                     * ((r_out ! i - target) * bernoulli_h_in (sigmoid 1 # r_in0) ! m))"
proof -
  let ?g = "gate_values h side_info"
  let ?ru = "bernoulli_r_out_unclipped side_info w h (sigmoid 1 # r_in0)"
  let ?hin = "bernoulli_h_in (sigmoid 1 # r_in0)"
  let ?grad = "bernoulli_grad epsilon ?ru r_out target ?hin"
  let ?n = "Suc (length r_in0)"
  note f = layer_bernoulli_Inr[OF run]
  have out: "length r_out = length h" and ru: "length ?ru = length r_out" using f(4) by simp_all
  have c1: "r_out ! i = clip (?ru ! i) epsilon (1 - epsilon)"
    using f(4) i by simp
  from f(6) have bc: "length ?g = length w \<or> length ?g = 1"
    and w': "w' = weight_update learning_rate ?g ?grad w" by auto
  have lg: "length ?grad = length ?g" using out ru by simp
  have hin: "length ?hin = ?n" by (simp add: bernoulli_h_in_def)
  have gr: "\<And>k. k < length ?grad \<Longrightarrow> length (?grad ! k) = ?n"
    using ru hin by (simp add: bernoulli_grad_nth)
  have ig: "i < length ?g" using i by simp
  have io: "i < length r_out" using i out by simp
  have entry: "\<And>j m. j < length (w ! i) \<Longrightarrow> m < ?n \<Longrightarrow>
      w' ! i ! j ! m = w ! i ! j ! m - learning_rate * of_bool (?g ! i ! j) * ?grad ! i ! m"
    unfolding w' by (rule weight_update_entry[OF bc lg f(2) f(3) gr i(1) ig])
  have gval: "\<And>m. m < ?n \<Longrightarrow> ?grad ! i ! m =
      (r_out ! i - target) * ?hin ! m * of_bool (\<bar>target - ?ru ! i\<bar> > epsilon)"
    using ru io hin by (simp add: bernoulli_grad_nth)
  have shape: "map (map length) w' = map (map length) w"
    unfolding w' by (rule weight_update_shape[OF bc lg f(2) f(3) gr])
  have li: "map length (w' ! i) = map length (w ! i)"
    using shape i(1) by (metis length_map nth_map)
  have c2: "w' ! i = w ! i" if skip: "\<bar>target - ?ru ! i\<bar> \<le> epsilon"
  proof (rule nth_equalityI)
    show l1: "length (w' ! i) = length (w ! i)" using li by (metis length_map)
    fix j' assume "j' < length (w' ! i)"
    then have j': "j' < length (w ! i)" using l1 by simp
    have l2: "length (w' ! i ! j') = length (w ! i ! j')"
      using li j' l1 by (metis nth_map)
    have lw: "length (w ! i ! j') = ?n" using last_axis_isD[OF f(3) i(1) j'] .
    show "w' ! i ! j' = w ! i ! j'"
    proof (rule nth_equalityI)
      show "length (w' ! i ! j') = length (w ! i ! j')" by (rule l2)
      fix m' assume "m' < length (w' ! i ! j')"
      then have "m' < ?n" using l2 lw by simp
      then show "w' ! i ! j' ! m' = w ! i ! j' ! m'"
        using entry[OF j'] gval skip by simp
    qed
  qed
  have m': "m < ?n" using m by simp
  have c3: "w' ! i ! j ! m = w ! i ! j ! m - learning_rate * of_bool (?g ! i ! j)
                     * ((r_out ! i - target) * ?hin ! m)" if "\<bar>target - ?ru ! i\<bar> > epsilon"
    using entry[OF j m'] gval[OF m'] that by simp
  show ?thesis using c1 c2 c3 by blast
qed

theorem bernoulli_update_indicator_witness:
  "layer_bernoulli [1, 0] (1 / 10) (1 / 100) (Some 1) True [[[0, 0]]] [[[1, 0]]] [1 / 2]
     = Inr ([[[1 / 20, 0]]], [1 / 2])
   \<and> bernoulli_r_out_unclipped [1, 0] [[[0, 0]]] [[[1, 0]]] [sigmoid 1, 1 / 2] ! 0 = 1 / 2
   \<and> \<bar>1 - (1 / 2 :: real)\<bar> > 1 / 100
   \<and> [[[1 / 20, 0 :: real]]] ! 0 ! 0 ! 0
       = 0 - (1 / 10) * of_bool True * ((1 / 2 - 1) * bernoulli_h_in [sigmoid 1, 1 / 2] ! 0)
   \<and> layer_bernoulli [1, 0] (1 / 10) (1 / 100) (Some (1 / 2)) True [[[0, 0]]] [[[1, 0]]] [1 / 2]
     = Inr ([[[0, 0]]], [1 / 2])
   \<and> \<bar>1 / 2 - (1 / 2 :: real)\<bar> \<le> 1 / 100"
proof -
  have run: "layer_bernoulli [1, 0] (1 / 10) (1 / 100) (Some 1) True [[[0, 0]]] [[[1, 0]]] [1 / 2]
     = Inr ([[[1 / 20, 0]]], [1 / 2])"
    by (simp add: bern_defs inverse_sigmoid_half)
  have skip: "layer_bernoulli [1, 0] (1 / 10) (1 / 100) (Some (1 / 2)) True [[[0, 0]]] [[[1, 0]]] [1 / 2]
     = Inr ([[[0, 0]]], [1 / 2])"
    by (simp add: bern_defs inverse_sigmoid_half)
  have ru: "bernoulli_r_out_unclipped [1, 0] [[[0, 0]]] [[[1, 0]]] [sigmoid 1, 1 / 2] ! 0 = 1 / 2"
    by (simp add: bern_defs)
  show ?thesis
    using run skip ru bernoulli_update_indicator[OF run, of 0 0 0] bernoulli_update_indicator[OF skip, of 0 0 0]
    by (simp add: gate_values_def dot_def astype_bool_def heaviside_def bernoulli_h_in_def inverse_sigmoid_sigmoid)
qed

subsection \<open>C8: inference is repeatable\<close>

text \<open>
  Claim C8: a call with update off, in either regime, leaves the state as it was, so a second
  call on the same input returns the same prediction and the same loss, and so does a call
  after any number of such passes.
\<close>

theorem inference_is_repeatable:
  "fst (step_square_loss inputs net b lr target False) = net
   \<and> fst (step_bernoulli inputs net b lr epsilon target False) = net
   \<and> ((\<lambda>s. fst (step_square_loss inputs s b lr target False)) ^^ n) net = net
   \<and> ((\<lambda>s. fst (step_bernoulli inputs s b lr epsilon target False)) ^^ n) net = net
   \<and> snd (step_square_loss inputs
            (((\<lambda>s. fst (step_square_loss inputs s b lr target False)) ^^ n) net) b lr target False)
       = snd (step_square_loss inputs net b lr target False)
   \<and> snd (step_bernoulli inputs
            (((\<lambda>s. fst (step_bernoulli inputs s b lr epsilon target False)) ^^ n) net)
            b lr epsilon target False)
       = snd (step_bernoulli inputs net b lr epsilon target False)"
proof -
  have sq: "((\<lambda>s. fst (step_square_loss inputs s b lr target False)) ^^ k) net = net" for k
    by (induction k) (simp_all add: step_square_loss_no_update)
  have be: "((\<lambda>s. fst (step_bernoulli inputs s b lr epsilon target False)) ^^ k) net = net" for k
    by (induction k) (simp_all add: step_bernoulli_no_update)
  show ?thesis
    unfolding sq be by (simp add: step_square_loss_no_update step_bernoulli_no_update)
qed

subsection \<open>C9: one step of a single neuron\<close>

text \<open>
  Claim C9: a network of one layer with one neuron of one branch and two input features,
  zero weights and a hyperplane that makes the gate active, in the squared-loss regime:
  one step on input \<open>[1, 1]\<close> with target 2, learning rate 0.1 and update on returns
  prediction 0 and loss 2 and leaves the weight vector \<open>[0.2, 0.2, 0.2]\<close>, the bias weight
  first.
\<close>

theorem single_neuron_square_loss_step:
  assumes "length hp = 3" and "0 < dot hp [1, 1, 1]"
  shows "step_square_loss [1, 1] \<lparr>weights = dgn_weights [1] 1 2, hyperplanes = [[[hp]]]\<rparr>
           1 (1 / 10) (Some 2) True
       = (\<lparr>weights = [[[[1 / 5, 1 / 5, 1 / 5]]]], hyperplanes = [[[hp]]]\<rparr>, Inr ([0], [2]))"
proof -
  have g: "gate_values [[hp]] [1, 1, 1] = [[True]]"
    using assms(2) by (simp add: gate_values_def astype_bool_heaviside)
  have w0: "dgn_weights [1] 1 2 = [[[[0, 0, 0]]]]"
    by code_simp
  have ew: "effective_weights [[True]] [[[0, 0, 0]]] = [[0, 0, 0]]"
    by code_simp
  have out: "square_r_out [1, 1, 1] [[[0, 0, 0]]] [[hp]] [1, 1, 1] = [0]"
    by (simp add: square_r_out_def g ew mat_dot_def dot_def)
  have upd: "weight_update (1 / 10) [[True]] (square_grad [0] 2 [1, 1, 1]) [[[0, 0, 0]]]
      = [[[1 / 5, 1 / 5, 1 / 5]]]"
    by code_simp
  have layer: "layer_square_loss [1, 1, 1] (1 / 10) (Some 2) True [[[0, 0, 0]]] [[hp]] [1, 1]
      = Inr ([[[1 / 5, 1 / 5, 1 / 5]]], [0])"
    using assms(1)
    by (simp add: layer_square_loss_def Let_def last_axis_is_def branches_match_def g out upd)
  show ?thesis
    unfolding w0 by (simp add: step_square_loss_def layer store_weights_def square_loss_def)
qed

theorem single_neuron_square_loss_step_witness:
  "length [1, 0, 0 :: real] = 3 \<and> 0 < dot [1, 0, 0] [1, 1, 1]
   \<and> step_square_loss [1, 1] \<lparr>weights = dgn_weights [1] 1 2, hyperplanes = [[[[1, 0, 0]]]]\<rparr>
           1 (1 / 10) (Some 2) True
       = (\<lparr>weights = [[[[1 / 5, 1 / 5, 1 / 5]]]], hyperplanes = [[[[1, 0, 0]]]]\<rparr>, Inr ([0], [2]))"
proof -
  have p: "length [1, 0, 0 :: real] = 3" "0 < dot [1, 0, 0] [1, 1, 1]"
    by (simp_all add: dot_def)
  from p single_neuron_square_loss_step[OF p] show ?thesis by blast
qed

subsection \<open>C10: the update does not change the outcome of the pass\<close>

text \<open>
  Claim C10: from the same state, input and target, a step with update on returns the same
  prediction and loss as a step with update off, in either regime: each layer's output is
  computed before its weights are written. Whenever the updating call returns a pair, the
  call without update returns that pair; and on a network whose layers have as many
  hyperplane neurons as weight neurons (or one, which broadcasts) the two outcomes agree
  altogether.
\<close>

theorem update_does_not_change_outcome:
  "(list_all (\<lambda>(w, h). length h = length w \<or> length h = 1) (zip (weights net) (hyperplanes net))
      \<longrightarrow> snd (step_square_loss inputs net b lr (Some t) True)
            = snd (step_square_loss inputs net b lr (Some t) False)
        \<and> snd (step_bernoulli inputs net b lr epsilon (Some t) True)
            = snd (step_bernoulli inputs net b lr epsilon (Some t) False))
   \<and> (snd (step_square_loss inputs net b lr target True) = Inr res
        \<longrightarrow> snd (step_square_loss inputs net b lr target False) = Inr res)
   \<and> (snd (step_bernoulli inputs net b lr epsilon target True) = Inr res'
        \<longrightarrow> snd (step_bernoulli inputs net b lr epsilon target False) = Inr res')"
proof -
  have eq: "snd (step_square_loss inputs net b lr (Some t) True)
            = snd (step_square_loss inputs net b lr (Some t) False)
        \<and> snd (step_bernoulli inputs net b lr epsilon (Some t) True)
            = snd (step_bernoulli inputs net b lr epsilon (Some t) False)"
    if "list_all (\<lambda>(w, h). length h = length w \<or> length h = 1) (zip (weights net) (hyperplanes net))"
  proof -
    have c: "\<And>w h. (w, h) \<in> set (zip (weights net) (hyperplanes net))
        \<Longrightarrow> length h = length w \<or> length h = 1"
      using that by (auto simp: list_all_iff)
    have "snd (loop_layers (layer_square_loss (b # inputs) lr (Some t) True)
               (zip (weights net) (hyperplanes net)) inputs None)
      = snd (loop_layers (layer_square_loss (b # inputs) lr (Some t) False)
               (zip (weights net) (hyperplanes net)) inputs None)"
      by (rule loop_same_out, rule layer_square_loss_out_update, rule c)
    moreover have "snd (loop_layers (layer_bernoulli (b # inputs) lr epsilon (Some t) True)
               (zip (weights net) (hyperplanes net))
               (map (\<lambda>x. clip (sigmoid x) epsilon (1 - epsilon)) inputs) None)
      = snd (loop_layers (layer_bernoulli (b # inputs) lr epsilon (Some t) False)
               (zip (weights net) (hyperplanes net))
               (map (\<lambda>x. clip (sigmoid x) epsilon (1 - epsilon)) inputs) None)"
      by (rule loop_same_out, rule layer_bernoulli_out_update, rule c)
    ultimately show ?thesis by (simp add: snd_step_square_loss snd_step_bernoulli)
  qed
  show ?thesis
    using eq step_square_loss_drop_update[of inputs net b lr target res]
      step_bernoulli_drop_update[of inputs net b lr epsilon target res']
    by blast
qed

theorem update_does_not_change_outcome_witness:
  "list_all (\<lambda>(w, h). length h = length w \<or> length h = 1)
     (zip [[[[1, 2 :: real]], [[3, 4]]], [[[0, 0, 0]]]] [[[[1, 0 :: real]], [[-1, 0]]], [[[1, 0]]]])
   \<and> snd (step_square_loss [3]
        \<lparr>weights = [[[[1, 2]], [[3, 4]]], [[[0, 0, 0]]]],
         hyperplanes = [[[[1, 0]], [[-1, 0]]], [[[1, 0]]]]\<rparr> 1 (1 / 2) (Some 1) True) = Inr ([0], [1 / 2])
   \<and> snd (step_square_loss [3]
        \<lparr>weights = [[[[1, 2]], [[3, 4]]], [[[0, 0, 0]]]],
         hyperplanes = [[[[1, 0]], [[-1, 0]]], [[[1, 0]]]]\<rparr> 1 (1 / 2) (Some 1) False) = Inr ([0], [1 / 2])
   \<and> snd (step_bernoulli [3]
        \<lparr>weights = [[[[1, 2]], [[3, 4]]], [[[0, 0, 0]]]],
         hyperplanes = [[[[1, 0]], [[-1, 0]]], [[[1, 0]]]]\<rparr> 1 (1 / 2) (1 / 100) (Some 1) True)
     = snd (step_bernoulli [3]
        \<lparr>weights = [[[[1, 2]], [[3, 4]]], [[[0, 0, 0]]]],
         hyperplanes = [[[[1, 0]], [[-1, 0]]], [[[1, 0]]]]\<rparr> 1 (1 / 2) (1 / 100) (Some 1) False)
   \<and> snd (step_bernoulli [0] \<lparr>weights = [[[[0, 0]]]], hyperplanes = [[[[1, 0]]]]\<rparr>
        1 (1 / 10) (1 / 100) (Some 1) True) = Inr ([1 / 2], [ln 2])
   \<and> snd (step_bernoulli [0] \<lparr>weights = [[[[0, 0]]]], hyperplanes = [[[[1, 0]]]]\<rparr>
        1 (1 / 10) (1 / 100) (Some 1) False) = Inr ([1 / 2], [ln 2])"
proof -
  let ?net = "\<lparr>weights = [[[[1, 2]], [[3, 4]]], [[[0, 0, 0]]]],
               hyperplanes = [[[[1, 0]], [[-1, 0]]], [[[1, 0 :: real]]]]\<rparr>"
  let ?one = "\<lparr>weights = [[[[0, 0]]]], hyperplanes = [[[[1, 0 :: real]]]]\<rparr>"
  have shape: "list_all (\<lambda>(w, h). length h = length w \<or> length h = 1)
     (zip [[[[1, 2 :: real]], [[3, 4]]], [[[0, 0, 0]]]] [[[[1, 0 :: real]], [[-1, 0]]], [[[1, 0]]]])"
    by simp
  then have shape': "list_all (\<lambda>(w, h). length h = length w \<or> length h = 1)
     (zip (weights ?net) (hyperplanes ?net))"
    by simp
  have sq: "snd (step_square_loss [3] ?net 1 (1 / 2) (Some 1) True) = Inr ([0], [1 / 2])"
    by code_simp
  have be: "snd (step_bernoulli [0] ?one 1 (1 / 10) (1 / 100) (Some 1) True) = Inr ([1 / 2], [ln 2])"
    by (simp add: bern_defs ln_div)
  note i1 = update_does_not_change_outcome[of ?net "[3]" 1 "1 / 2" 1 "1 / 100" "Some 1" "([0], [1 / 2])"]
  note i2 = update_does_not_change_outcome[of ?one "[0]" 1 "1 / 10" 1 "1 / 100" "Some 1" _ "([1 / 2], [ln 2])"]
  from i1 shape' sq have
    "snd (step_square_loss [3] ?net 1 (1 / 2) (Some 1) False) = Inr ([0], [1 / 2])"
    "snd (step_bernoulli [3] ?net 1 (1 / 2) (1 / 100) (Some 1) True)
       = snd (step_bernoulli [3] ?net 1 (1 / 2) (1 / 100) (Some 1) False)"
    by blast+
  moreover from i2 be have
    "snd (step_bernoulli [0] ?one 1 (1 / 10) (1 / 100) (Some 1) False) = Inr ([1 / 2], [ln 2])"
    by blast
  ultimately show ?thesis using shape sq be by blast
qed

end
